theory Spec2Isabelle
  imports Main
begin

section \<open>Phone-number normalisation\<close>

text \<open>
  \<^verbatim>\<open>sendMessage\<close> and \<^verbatim>\<open>sendMediaMessage\<close> of
  \<^verbatim>\<open>whatsappInstanceManager.service.js\<close> format the recipient with the same
  inline code:
  \<^verbatim>\<open>
  let formattedNumber = phoneNumber.replace(/[^\d]/g, '');
  if (!formattedNumber.startsWith('62')) {
      if (formattedNumber.startsWith('0')) {
          formattedNumber = '62' + formattedNumber.substring(1);
      } else {
          formattedNumber = '62' + formattedNumber;
      }
  }
  \<close>
  The regular expression has no unicode flag, so \<^verbatim>\<open>\d\<close> is the ten ASCII digits.
\<close>

definition isDigit :: "char \<Rightarrow> bool" where
  "isDigit c = (c \<in> set ''0123456789'')"

definition startsWith :: "string \<Rightarrow> string \<Rightarrow> bool" where
  "startsWith s p = (take (length p) s = p)"

definition formattedNumber :: "string \<Rightarrow> string" where
  "formattedNumber phoneNumber =
     (let formatted = filter isDigit phoneNumber in
      if \<not> startsWith formatted ''62'' then
        (if startsWith formatted ''0'' then ''62'' @ drop 1 formatted
         else ''62'' @ formatted)
      else formatted)"

section \<open>Data of the instance controller\<close>

text \<open>
  The class \<^verbatim>\<open>WhatsAppInstance\<close> becomes a record of its mutable fields. The
  collaborators that are not part of the repository (the Baileys socket, the persistence
  services, axios, the logger) are not run: every call to one of them is written to a
  trace of effects, in the order of the calls, and where the code branches on a
  collaborator's answer the answer is read from a record of oracles, the \<open>world\<close>.
  The code has no handler for a failure of \<^verbatim>\<open>instanceService.updateStatus\<close> or of
  \<^verbatim>\<open>instanceLogService.create\<close>: these two are calls that return. Calls to
  \<^verbatim>\<open>logger.info\<close> and the timestamps (\<^verbatim>\<open>new Date()\<close>) are left out of the
  trace. A handler invocation is one step of the model: no other task is interleaved at
  its \<^verbatim>\<open>await\<close>s.
\<close>

datatype connectionStatus =
  Disconnected | Connecting | QrReady | Connected | Reconnecting | LoggedOut | ErrorStatus

record waInstance =
  phone :: string
  sock :: bool
  isConnected :: bool
  connectionStatus :: connectionStatus
  qrCode :: "string option"
  reconnectAttempts :: nat
  maxReconnectAttempts :: nat
  isManualRestart :: bool

text \<open>The constructor of \<^verbatim>\<open>WhatsAppInstance\<close>.\<close>

definition newInstance :: "string \<Rightarrow> waInstance" where
  "newInstance p =
     \<lparr>phone = p, sock = False, isConnected = False, connectionStatus = Disconnected,
      qrCode = None, reconnectAttempts = 0, maxReconnectAttempts = 5,
      isManualRestart = False\<rparr>"

text \<open>
  A \<^verbatim>\<open>connection.update\<close> of the socket: the field \<^verbatim>\<open>connection\<close>
  (\<^verbatim>\<open>'close'\<close>, \<^verbatim>\<open>'open'\<close>, \<^verbatim>\<open>'connecting'\<close> or absent), the value of
  \<^verbatim>\<open>lastDisconnect?.error?.output?.statusCode\<close> (\<open>None\<close> when any link of the
  chain is undefined) and the field \<^verbatim>\<open>qr\<close>.
\<close>

datatype connection = Close | Open | ConnectingSignal

record update =
  connection :: "connection option"
  statusCode :: "nat option"
  qr :: "string option"

text \<open>\<^verbatim>\<open>DisconnectReason.loggedOut\<close> of the Baileys library.\<close>

definition loggedOut :: nat where
  "loggedOut = 401"

text \<open>An inbound message, with the fields the controller reads.\<close>

record message =
  fromMe :: bool
  remoteJid :: string
  messageId :: string
  pushName :: "string option"
  conversation :: "string option"
  extendedText :: "string option"
  messageType :: "string option"
  messageTimestamp :: nat

datatype direction = Incoming | Outgoing

text \<open>The object given to \<^verbatim>\<open>messageService.create\<close>.\<close>

record messageData =
  md_direction :: direction
  md_from :: string
  md_to :: string
  md_type :: string
  md_content :: string
  md_messageId :: string
  md_status :: string

text \<open>The \<^verbatim>\<open>data\<close> of a \<^verbatim>\<open>connection.update\<close> webhook event.\<close>

record connData =
  cd_status :: string
  cd_qrCode :: "string option"
  cd_message :: string
  cd_reconnectAttempt :: "nat option"
  cd_maxReconnectAttempts :: "nat option"
  cd_disconnectReason :: "nat option"
  cd_wasManualRestart :: "bool option"
  cd_previousReconnectAttempts :: "nat option"

datatype eventData =
    ConnectionData connData
  | ReceivedData message
  | SentData messageData string

record webhook =
  wh_id :: nat
  wh_url :: string

record response =
  rs_status :: nat
  rs_statusText :: string
  rs_data :: string

text \<open>
  What \<^verbatim>\<open>await axios.post(...)\<close> gives back: the promise resolves with a response,
  or rejects with an error whose \<^verbatim>\<open>code\<close>, \<^verbatim>\<open>response\<close> and \<^verbatim>\<open>message\<close>
  the code reads. The number is the time the call took, \<^verbatim>\<open>Date.now() - startTime\<close>.
  axios resolves exactly for a status of the 2xx class (its default
  \<^verbatim>\<open>validateStatus\<close>) and rejects a request that exceeded \<^verbatim>\<open>timeout\<close> with the
  code \<^verbatim>\<open>ECONNABORTED\<close>.
\<close>

record axiosError =
  ae_code :: "string option"
  ae_response :: "response option"
  ae_message :: string

datatype postResult = Resolved response nat | Rejected axiosError nat

text \<open>\<^verbatim>\<open>historyData\<close>, the object given to \<^verbatim>\<open>webhookHistoryService.create\<close>.\<close>

record history =
  h_webhookId :: nat
  h_event :: string
  h_payload :: eventData
  h_status :: string
  h_retryCount :: nat
  h_httpStatusCode :: "nat option"
  h_responseTime :: "nat option"
  h_response :: "response option"
  h_errorMessage :: "string option"

text \<open>The content handed to \<^verbatim>\<open>sock.sendMessage\<close>.\<close>

datatype content =
    TextContent string
  | ImageContent string "string option"
  | VideoContent string "string option"
  | AudioContent string string
  | DocumentContent string string "string option"

datatype timer = Reinitialize | Settle

text \<open>The places that call \<^verbatim>\<open>logger.error\<close>; the string beside one is \<^verbatim>\<open>error.message\<close>.\<close>

datatype logSite =
    WebhookFailed nat
  | HistorySaveFailed nat
  | TriggerFailed
  | PluginError string
  | StoreFailed
  | ProcessFailed
  | SendFailed
  | SendGroupFailed
  | SendMediaFailed
  | InitFailed
  | CloseFailed
  | LogoutFailed

datatype effect =
    UpdateStatus string
  | InstanceLog string string
  | LogError logSite string
  | SetTimeout nat timer
  | Trigger string eventData
  | HttpPost nat string
  | HttpSettled nat
  | HistoryCreate history
  | MessageCreate messageData
  | PluginCall string
  | SockSend string content
  | MakeSocket
  | WsClose
  | SockLogout

text \<open>
  The answers of the collaborators. \<open>Inl\<close> and \<open>Some\<close> of a string are a throw
  (a rejected promise) with that \<^verbatim>\<open>error.message\<close>.
\<close>

record world =
  getEnabledWebhooks :: "string \<Rightarrow> string + webhook list"
  axiosPost :: "webhook \<Rightarrow> string \<Rightarrow> postResult"
  historyCreate :: "history \<Rightarrow> string option"
  messageCreate :: "messageData \<Rightarrow> string option"
  sockSendMessage :: "string \<Rightarrow> content \<Rightarrow> string + string"
  wsClose :: "string option"
  sockLogout :: "string option"
  sockUserId :: "string option"
  watermark :: string

datatype error =
    NotConnected string
  | NotFound string
  | UnsupportedMediaType string
  | Thrown string

fun errorMessage :: "error \<Rightarrow> string" where
  "errorMessage (NotConnected p) = ''WhatsApp instance '' @ p @ '' not connected''"
| "errorMessage (NotFound p) = ''WhatsApp instance '' @ p @ '' not found''"
| "errorMessage (UnsupportedMediaType t) =
     ''Unsupported media type: '' @ t @ ''. Supported types: image, video, audio, document''"
| "errorMessage (Thrown m) = m"

text \<open>Decimal digits of a number, as a template literal prints it.\<close>

function showNat :: "nat \<Rightarrow> string" where
  "showNat n =
     (if n < 10 then [char_of (48 + n)]
      else showNat (n div 10) @ [char_of (48 + n mod 10)])"
  by pat_completeness auto
termination
  by (relation "measure id") auto

declare showNat.simps [simp del]

section \<open>Webhook delivery\<close>

text \<open>
  \<^verbatim>\<open>triggerWebhooks(event, data)\<close>. The body of the loop is \<open>deliver\<close>: the POST is
  issued and awaited (\<^verbatim>\<open>await axios.post\<close>), the history object is built in the
  \<^verbatim>\<open>try\<close> or in the \<^verbatim>\<open>catch\<close>, and \<^verbatim>\<open>webhookHistoryService.create\<close> is called
  in a \<^verbatim>\<open>try\<close> of its own. The loop takes the next webhook only after that.
\<close>

definition pendingHistory :: "string \<Rightarrow> eventData \<Rightarrow> webhook \<Rightarrow> history" where
  "pendingHistory event data wh =
     \<lparr>h_webhookId = wh_id wh, h_event = event, h_payload = data, h_status = ''pending'',
      h_retryCount = 0, h_httpStatusCode = None, h_responseTime = None, h_response = None,
      h_errorMessage = None\<rparr>"

definition settledHistory :: "history \<Rightarrow> postResult \<Rightarrow> history" where
  "settledHistory historyData r =
     (case r of
        Resolved resp t \<Rightarrow>
          historyData\<lparr>h_status := ''success'', h_httpStatusCode := Some (rs_status resp),
            h_responseTime := Some t, h_response := Some resp\<rparr>
      | Rejected err t \<Rightarrow>
          (let status = (if ae_code err = Some ''ECONNABORTED'' then ''timeout'' else ''failed'');
               httpStatusCode =
                 (if ae_code err = Some ''ECONNABORTED'' then None
                  else map_option rs_status (ae_response err));
               resp =
                 (if ae_code err = Some ''ECONNABORTED'' then None else ae_response err)
           in historyData\<lparr>h_status := status, h_httpStatusCode := httpStatusCode,
                h_responseTime := Some t, h_response := resp,
                h_errorMessage := Some (ae_message err)\<rparr>))"

definition postLog :: "webhook \<Rightarrow> postResult \<Rightarrow> effect list" where
  "postLog wh r =
     (case r of
        Resolved resp t \<Rightarrow> []
      | Rejected err t \<Rightarrow> [LogError (WebhookFailed (wh_id wh)) (ae_message err)])"

definition saveHistory :: "world \<Rightarrow> webhook \<Rightarrow> history \<Rightarrow> effect list" where
  "saveHistory w wh historyData =
     HistoryCreate historyData #
     (case historyCreate w historyData of
        None \<Rightarrow> []
      | Some m \<Rightarrow> [LogError (HistorySaveFailed (wh_id wh)) m])"

definition deliver :: "world \<Rightarrow> string \<Rightarrow> eventData \<Rightarrow> webhook \<Rightarrow> effect list" where
  "deliver w event data wh =
     (let r = axiosPost w wh event in
      [HttpPost (wh_id wh) (wh_url wh), HttpSettled (wh_id wh)]
      @ postLog wh r
      @ saveHistory w wh (settledHistory (pendingHistory event data wh) r))"

fun deliverAll :: "world \<Rightarrow> string \<Rightarrow> eventData \<Rightarrow> webhook list \<Rightarrow> effect list" where
  "deliverAll w event data [] = []"
| "deliverAll w event data (wh # webhooks) =
     deliver w event data wh @ deliverAll w event data webhooks"

definition triggerWebhooks :: "world \<Rightarrow> string \<Rightarrow> eventData \<Rightarrow> effect list" where
  "triggerWebhooks w event data =
     Trigger event data #
     (case getEnabledWebhooks w event of
        Inl m \<Rightarrow> [LogError TriggerFailed m]
      | Inr webhooks \<Rightarrow> deliverAll w event data webhooks)"

section \<open>The connection state machine\<close>

text \<open>
  The \<^verbatim>\<open>connection.update\<close> handler of \<^verbatim>\<open>setupEventHandlers\<close>: first the
  \<^verbatim>\<open>if (qr)\<close> block, then the chain on \<^verbatim>\<open>connection\<close>, then the instance log.
  A string is truthy when it is not empty.
\<close>

definition truthy :: "string option \<Rightarrow> bool" where
  "truthy v = (v \<noteq> None \<and> v \<noteq> Some [])"

definition connPayload :: "string \<Rightarrow> string \<Rightarrow> connData" where
  "connPayload status msg =
     \<lparr>cd_status = status, cd_qrCode = None, cd_message = msg, cd_reconnectAttempt = None,
      cd_maxReconnectAttempts = None, cd_disconnectReason = None,
      cd_wasManualRestart = None, cd_previousReconnectAttempts = None\<rparr>"

definition onQr :: "world \<Rightarrow> update \<Rightarrow> waInstance \<Rightarrow> waInstance \<times> effect list" where
  "onQr w u inst =
     (if truthy (qr u) then
        (inst\<lparr>qrCode := qr u, connectionStatus := QrReady\<rparr>,
         UpdateStatus ''qr_ready'' #
         triggerWebhooks w ''connection.update''
           (ConnectionData
             ((connPayload ''qr_ready'' ''QR Code generated. Scan to connect.'')
                \<lparr>cd_qrCode := qr u\<rparr>)))
      else (inst, []))"

definition onClose :: "world \<Rightarrow> update \<Rightarrow> waInstance \<Rightarrow> waInstance \<times> effect list" where
  "onClose w u inst =
     (let shouldReconnect = (statusCode u \<noteq> Some loggedOut);
          disconnectReason = statusCode u
      in
      if shouldReconnect \<and> reconnectAttempts inst < maxReconnectAttempts inst
         \<and> \<not> isManualRestart inst
      then
        (let i1 = inst\<lparr>reconnectAttempts := reconnectAttempts inst + 1\<rparr>;
             i2 = i1\<lparr>connectionStatus := Reconnecting, isConnected := False\<rparr>
         in (i2,
             UpdateStatus ''reconnecting'' #
             triggerWebhooks w ''connection.update''
               (ConnectionData
                 ((connPayload ''reconnecting''
                     (''Connection lost. Reconnecting... (attempt ''
                        @ showNat (reconnectAttempts i2) @ ''/''
                        @ showNat (maxReconnectAttempts i2) @ '')''))
                    \<lparr>cd_reconnectAttempt := Some (reconnectAttempts i2),
                     cd_maxReconnectAttempts := Some (maxReconnectAttempts i2),
                     cd_disconnectReason := disconnectReason\<rparr>))
             @ [SetTimeout 5000 Reinitialize]))
      else
        (let i1 = (if isManualRestart inst then inst\<lparr>isManualRestart := False\<rparr> else inst);
             i2 = i1\<lparr>connectionStatus := LoggedOut, isConnected := False\<rparr>
         in (i2,
             UpdateStatus ''inactive'' #
             triggerWebhooks w ''connection.update''
               (ConnectionData
                 ((connPayload ''logged_out''
                     (if isManualRestart i2 then ''Connection closed due to manual restart''
                      else ''Logged out or max reconnect attempts reached''))
                    \<lparr>cd_disconnectReason := disconnectReason,
                     cd_wasManualRestart := Some (isManualRestart i2)\<rparr>)))))"

definition onOpen :: "world \<Rightarrow> waInstance \<Rightarrow> waInstance \<times> effect list" where
  "onOpen w inst =
     (let i1 = inst\<lparr>connectionStatus := Connected, isConnected := True, qrCode := None,
                   reconnectAttempts := 0\<rparr>
      in (i1,
          UpdateStatus ''active'' #
          triggerWebhooks w ''connection.update''
            (ConnectionData
              ((connPayload ''connected'' ''WhatsApp connection established successfully'')
                 \<lparr>cd_previousReconnectAttempts := Some (reconnectAttempts i1)\<rparr>))))"

definition onConnecting :: "world \<Rightarrow> waInstance \<Rightarrow> waInstance \<times> effect list" where
  "onConnecting w inst =
     (inst\<lparr>connectionStatus := Connecting\<rparr>,
      UpdateStatus ''connecting'' #
      triggerWebhooks w ''connection.update''
        (ConnectionData (connPayload ''connecting'' ''Attempting to connect to WhatsApp...'')))"

fun connectionName :: "connection option \<Rightarrow> string" where
  "connectionName (Some Close) = ''close''"
| "connectionName (Some Open) = ''open''"
| "connectionName (Some ConnectingSignal) = ''connecting''"
| "connectionName None = ''undefined''"

definition connectionUpdate :: "world \<Rightarrow> update \<Rightarrow> waInstance \<Rightarrow> waInstance \<times> effect list" where
  "connectionUpdate w u inst =
     (let (i1, e1) = onQr w u inst;
          (i2, e2) =
            (case connection u of
               Some Close \<Rightarrow> onClose w u i1
             | Some Open \<Rightarrow> onOpen w i1
             | Some ConnectingSignal \<Rightarrow> onConnecting w i1
             | None \<Rightarrow> (i1, []))
      in (i2,
          e1 @ e2
          @ [InstanceLog ''info''
               (''Connection status changed: '' @ connectionName (connection u))]))"

text \<open>
  \<^verbatim>\<open>initialize()\<close>. Its \<^verbatim>\<open>try\<close> block calls collaborators only; what the model
  keeps of their answers is whether one of them threw, and whether that was before or
  after \<^verbatim>\<open>this.sock\<close> was assigned. The method writes neither
  \<^verbatim>\<open>reconnectAttempts\<close> nor \<^verbatim>\<open>isManualRestart\<close>, and on success it leaves
  \<^verbatim>\<open>connectionStatus\<close> to the socket's next \<^verbatim>\<open>connection.update\<close>.
\<close>

datatype initOutcome = InitOk | ThrowsBeforeSocket string | ThrowsAfterSocket string

definition initFailure :: "string \<Rightarrow> effect list" where
  "initFailure m =
     [LogError InitFailed m,
      InstanceLog ''error'' (''Error initializing WhatsApp instance: '' @ m),
      UpdateStatus ''error'']"

definition initialize :: "initOutcome \<Rightarrow> waInstance \<Rightarrow> waInstance \<times> effect list" where
  "initialize out inst =
     (case out of
        InitOk \<Rightarrow>
          (inst\<lparr>sock := True\<rparr>,
           [UpdateStatus ''connecting'', MakeSocket,
            InstanceLog ''info'' ''WhatsApp instance initialized''])
      | ThrowsBeforeSocket m \<Rightarrow>
          (inst\<lparr>connectionStatus := ErrorStatus\<rparr>,
           UpdateStatus ''connecting'' # initFailure m)
      | ThrowsAfterSocket m \<Rightarrow>
          (inst\<lparr>sock := True, connectionStatus := ErrorStatus\<rparr>,
           UpdateStatus ''connecting'' # MakeSocket # initFailure m))"

text \<open>\<^verbatim>\<open>close()\<close> (no logout) and \<^verbatim>\<open>disconnect()\<close> (logout).\<close>

definition closeInstance :: "world \<Rightarrow> waInstance \<Rightarrow> waInstance \<times> effect list" where
  "closeInstance w inst =
     (inst\<lparr>isConnected := False, connectionStatus := Disconnected\<rparr>,
      (if sock inst then
         WsClose # (case wsClose w of None \<Rightarrow> [] | Some m \<Rightarrow> [LogError CloseFailed m])
       else []))"

definition disconnect :: "world \<Rightarrow> waInstance \<Rightarrow> waInstance \<times> effect list" where
  "disconnect w inst =
     (inst\<lparr>isConnected := False, connectionStatus := Disconnected\<rparr>,
      (if sock inst then
         SockLogout # (case sockLogout w of None \<Rightarrow> [] | Some m \<Rightarrow> [LogError LogoutFailed m])
       else [])
      @ [UpdateStatus ''inactive''])"

text \<open>
  What can happen to one instance: the socket emits a \<^verbatim>\<open>connection.update\<close>, or
  the timer of the reconnect branch fires and calls \<^verbatim>\<open>initialize()\<close>.
\<close>

datatype event = ConnectionUpdate update | ReconnectTimer initOutcome

fun step :: "world \<Rightarrow> event \<Rightarrow> waInstance \<Rightarrow> waInstance \<times> effect list" where
  "step w (ConnectionUpdate u) inst = connectionUpdate w u inst"
| "step w (ReconnectTimer out) inst = initialize out inst"

fun run :: "world \<Rightarrow> event list \<Rightarrow> waInstance \<Rightarrow> waInstance \<times> effect list" where
  "run w [] inst = (inst, [])"
| "run w (e # es) inst =
     (let (i1, t1) = step w e inst;
          (i2, t2) = run w es i1
      in (i2, t1 @ t2))"

text \<open>
  \<^verbatim>\<open>restartInstance(phone)\<close> of the manager, whose \<^verbatim>\<open>instances\<close> map is a partial
  function. While the method waits its 1000 ms the socket may deliver
  \<^verbatim>\<open>connection.update\<close> signals (the close that \<^verbatim>\<open>ws.close()\<close> causes among
  them); they are the list \<open>signals\<close> and the handler runs on each.
\<close>

definition restartInstance ::
  "world \<Rightarrow> update list \<Rightarrow> initOutcome \<Rightarrow> (string \<rightharpoonup> waInstance) \<Rightarrow> string
   \<Rightarrow> (error + string) \<times> (string \<rightharpoonup> waInstance) \<times> effect list" where
  "restartInstance w signals out instances p =
     (case instances p of
        None \<Rightarrow> (Inl (NotFound p), instances, [])
      | Some inst \<Rightarrow>
          (let i1 = inst\<lparr>isManualRestart := True\<rparr>;
               (i2, e2) = closeInstance w i1;
               (i3, e3) = run w (map ConnectionUpdate signals) i2;
               (i4, e4) = initialize out i3
           in (Inr ''Instance restarted successfully'',
               instances(p \<mapsto> i4),
               e2 @ [SetTimeout 1000 Settle] @ e3 @ e4)))"

text \<open>The timers a trace arms, and the payloads it hands to the webhook pipeline.\<close>

fun timersOf :: "effect list \<Rightarrow> (nat \<times> timer) list" where
  "timersOf [] = []"
| "timersOf (SetTimeout ms t # es) = (ms, t) # timersOf es"
| "timersOf (e # es) = timersOf es"

fun connPayloads :: "effect list \<Rightarrow> connData list" where
  "connPayloads [] = []"
| "connPayloads (Trigger ev (ConnectionData d) # es) = d # connPayloads es"
| "connPayloads (e # es) = connPayloads es"

section \<open>Plugin dispatch\<close>

text \<open>
  \<^verbatim>\<open>PluginManager\<close> keeps two \<^verbatim>\<open>Map\<close>s keyed by the plugin name. A
  \<^verbatim>\<open>Map\<close> iterates in insertion order and \<^verbatim>\<open>set\<close> on a key that is present
  keeps the key's place, so each is an association list with \<open>mapSet\<close>. A plugin is an
  async function, as \<^verbatim>\<open>welcome-group.plugin.js\<close> declares it: called on the props it
  returns a promise, which is fulfilled or rejected with an error; an error raised in
  its body is the rejection. Of a plugin's \<^verbatim>\<open>config\<close> the dispatcher reads
  \<^verbatim>\<open>enabled\<close>.
\<close>

datatype handlerOutcome = Fulfilled | RejectedWith string

type_synonym handler = "message \<Rightarrow> handlerOutcome"

record pluginConfig =
  enabled :: bool

record pluginManager =
  plugins :: "(string \<times> handler) list"
  pluginConfigs :: "(string \<times> pluginConfig) list"

fun mapSet :: "('k \<times> 'v) list \<Rightarrow> 'k \<Rightarrow> 'v \<Rightarrow> ('k \<times> 'v) list" where
  "mapSet [] k v = [(k, v)]"
| "mapSet ((k', v') # kvs) k v =
     (if k' = k then (k, v) # kvs else (k', v') # mapSet kvs k v)"

definition mapHas :: "('k \<times> 'v) list \<Rightarrow> 'k \<Rightarrow> bool" where
  "mapHas kvs k = (map_of kvs k \<noteq> None)"

definition newPluginManager :: pluginManager where
  "newPluginManager = \<lparr>plugins = [], pluginConfigs = []\<rparr>"

text \<open>
  \<^verbatim>\<open>loadPlugins()\<close>, from the point where the directory has been listed and the names
  derived: for each name, \<^verbatim>\<open>require\<close> either throws (logged, the plugin is left
  out) or gives the handler and, when the module exports one, its \<^verbatim>\<open>config\<close>.
\<close>

fun loadPlugins ::
  "(string \<times> (string + handler \<times> pluginConfig option)) list \<Rightarrow> pluginManager \<Rightarrow> pluginManager"
  where
  "loadPlugins [] pm = pm"
| "loadPlugins ((pluginName, Inl m) # files) pm = loadPlugins files pm"
| "loadPlugins ((pluginName, Inr (plugin, c)) # files) pm =
     loadPlugins files
       (pm\<lparr>plugins := mapSet (plugins pm) pluginName plugin,
           pluginConfigs :=
             mapSet (pluginConfigs pm) pluginName
               (case c of Some config \<Rightarrow> config | None \<Rightarrow> \<lparr>enabled = True\<rparr>)\<rparr>)"

definition setEnabled :: "bool \<Rightarrow> string \<Rightarrow> pluginManager \<Rightarrow> pluginManager \<times> bool" where
  "setEnabled b pluginName pm =
     (if mapHas (plugins pm) pluginName then
        (pm\<lparr>pluginConfigs :=
             mapSet (pluginConfigs pm) pluginName
               (case map_of (pluginConfigs pm) pluginName of
                  Some config \<Rightarrow> config\<lparr>enabled := b\<rparr>
                | None \<Rightarrow> \<lparr>enabled = b\<rparr>)\<rparr>,
         True)
      else (pm, False))"

definition enablePlugin :: "string \<Rightarrow> pluginManager \<Rightarrow> pluginManager \<times> bool" where
  "enablePlugin = setEnabled True"

definition disablePlugin :: "string \<Rightarrow> pluginManager \<Rightarrow> pluginManager \<times> bool" where
  "disablePlugin = setEnabled False"

definition reloadPlugins ::
  "(string \<times> (string + handler \<times> pluginConfig option)) list \<Rightarrow> pluginManager \<Rightarrow> pluginManager"
  where
  "reloadPlugins files pm = loadPlugins files (pm\<lparr>plugins := []\<rparr>)"




section \<open>Inbound messages\<close>

text \<open>
  \<^verbatim>\<open>storeMessage\<close> wraps everything in a \<^verbatim>\<open>try\<close> and logs a failure of
  \<^verbatim>\<open>messageService.create\<close>. \<^verbatim>\<open>handleMessagesUpsert\<close> runs, for every message of
  a \<^verbatim>\<open>notify\<close> update that is not from the instance itself, the three awaited calls
  in one \<^verbatim>\<open>try\<close> (\<open>tryProcess\<close>) and logs what that \<^verbatim>\<open>try\<close> catches.
  \<open>a || b\<close> takes \<open>a\<close> when it is a non-empty string.
\<close>

definition orElse :: "string option \<Rightarrow> string \<Rightarrow> string" where
  "orElse a b = (case a of Some s \<Rightarrow> (if s = [] then b else s) | None \<Rightarrow> b)"






section \<open>Outbound messages\<close>

text \<open>
  \<^verbatim>\<open>sendMessage\<close>, \<^verbatim>\<open>sendGroupMessage\<close> and \<^verbatim>\<open>sendMediaMessage\<close>. Each is a
  \<^verbatim>\<open>try\<close> block (the \<open>try...\<close> function) and a \<^verbatim>\<open>catch\<close> that logs, writes an
  instance log entry and throws the error again. The signature appended to a text is
  built from \<^verbatim>\<open>package.json\<close>, which is not among the sources: it is the world's
  \<open>watermark\<close>.
\<close>

record sendResult =
  sr_success :: bool
  sr_message :: string
  sr_messageId :: string

definition includesStr :: "string \<Rightarrow> string \<Rightarrow> bool" where
  "includesStr s p = list_ex (\<lambda>i. startsWith (drop i s) p) [0 ..< Suc (length s)]"

definition toLowerCase :: "string \<Rightarrow> string" where
  "toLowerCase s =
     map (\<lambda>c. case map_of (zip ''ABCDEFGHIJKLMNOPQRSTUVWXYZ'' ''abcdefghijklmnopqrstuvwxyz'') c of
                 Some l \<Rightarrow> l
               | None \<Rightarrow> c) s"

definition afterSend ::
  "world \<Rightarrow> string \<Rightarrow> content \<Rightarrow> messageData \<Rightarrow> string \<Rightarrow> string \<Rightarrow> string
   \<Rightarrow> (error + sendResult) \<times> effect list" where
  "afterSend w jid c messageData recipient logLine okLine =
     (case sockSendMessage w jid c of
        Inl e \<Rightarrow> (Inl (Thrown e), [SockSend jid c])
      | Inr mid \<Rightarrow>
          (let stored = messageData\<lparr>md_messageId := mid\<rparr> in
           case messageCreate w stored of
             Some e \<Rightarrow> (Inl (Thrown e), [SockSend jid c, MessageCreate stored])
           | None \<Rightarrow>
               (Inr \<lparr>sr_success = True, sr_message = okLine, sr_messageId = mid\<rparr>,
                [SockSend jid c, MessageCreate stored]
                @ triggerWebhooks w ''message.sent'' (SentData stored recipient)
                @ [InstanceLog ''info'' logLine])))"

definition outgoingData :: "waInstance \<Rightarrow> string \<Rightarrow> string \<Rightarrow> string \<Rightarrow> messageData" where
  "outgoingData inst recipient type text =
     \<lparr>md_direction = Outgoing, md_from = phone inst, md_to = recipient, md_type = type,
      md_content = text, md_messageId = [], md_status = ''sent''\<rparr>"

definition rethrow ::
  "logSite \<Rightarrow> string \<Rightarrow> (error + sendResult) \<times> effect list
   \<Rightarrow> (error + sendResult) \<times> effect list" where
  "rethrow site prefix r =
     (case r of
        (Inl e, es) \<Rightarrow>
          (Inl e,
           es @ [LogError site (errorMessage e),
                 InstanceLog ''error'' (prefix @ errorMessage e)])
      | (Inr v, es) \<Rightarrow> (Inr v, es))"

definition trySendMessage ::
  "world \<Rightarrow> waInstance \<Rightarrow> string \<Rightarrow> string \<Rightarrow> (error + sendResult) \<times> effect list" where
  "trySendMessage w inst phoneNumber messageText =
     (if \<not> isConnected inst then (Inl (NotConnected (phone inst)), [])
      else
        (let formatted = formattedNumber phoneNumber;
             jid = formatted @ ''@s.whatsapp.net''
         in afterSend w jid (TextContent (messageText @ watermark w))
              (outgoingData inst formatted ''text'' messageText) formatted
              (''Message sent: '' @ messageText) ''Message sent successfully''))"

definition sendMessage ::
  "world \<Rightarrow> waInstance \<Rightarrow> string \<Rightarrow> string \<Rightarrow> (error + sendResult) \<times> effect list" where
  "sendMessage w inst phoneNumber messageText =
     rethrow SendFailed ''Error sending message: ''
       (trySendMessage w inst phoneNumber messageText)"

definition trySendGroupMessage ::
  "world \<Rightarrow> waInstance \<Rightarrow> string \<Rightarrow> string \<Rightarrow> (error + sendResult) \<times> effect list" where
  "trySendGroupMessage w inst groupId messageText =
     (if \<not> isConnected inst then (Inl (NotConnected (phone inst)), [])
      else
        (let jid = (if includesStr groupId ''@g.us'' then groupId else groupId @ ''@g.us'')
         in afterSend w jid (TextContent (messageText @ watermark w))
              (outgoingData inst groupId ''text'' messageText) groupId
              (''Group message sent to '' @ groupId @ '': '' @ messageText)
              ''Group message sent successfully''))"

definition sendGroupMessage ::
  "world \<Rightarrow> waInstance \<Rightarrow> string \<Rightarrow> string \<Rightarrow> (error + sendResult) \<times> effect list" where
  "sendGroupMessage w inst groupId messageText =
     rethrow SendGroupFailed ''Error sending group message: ''
       (trySendGroupMessage w inst groupId messageText)"

record mediaData =
  m_type :: string
  m_url :: string
  m_caption :: "string option"
  m_filename :: "string option"

definition signed :: "world \<Rightarrow> string option \<Rightarrow> string option" where
  "signed w caption =
     (if truthy caption then Some (orElse caption [] @ watermark w) else None)"

definition mediaContent :: "world \<Rightarrow> mediaData \<Rightarrow> error + content" where
  "mediaContent w media =
     (let type = toLowerCase (m_type media) in
      if type = ''image'' then Inr (ImageContent (m_url media) (signed w (m_caption media)))
      else if type = ''video'' then Inr (VideoContent (m_url media) (signed w (m_caption media)))
      else if type = ''audio'' then Inr (AudioContent (m_url media) ''audio/mp4'')
      else if type = ''document'' then
        Inr (DocumentContent (m_url media) (orElse (m_filename media) ''document'')
               (signed w (m_caption media)))
      else Inl (UnsupportedMediaType (m_type media)))"

definition trySendMediaMessage ::
  "world \<Rightarrow> waInstance \<Rightarrow> string \<Rightarrow> mediaData \<Rightarrow> (error + sendResult) \<times> effect list" where
  "trySendMediaMessage w inst phoneNumber media =
     (if \<not> isConnected inst then (Inl (NotConnected (phone inst)), [])
      else
        (let formatted = formattedNumber phoneNumber;
             jid = formatted @ ''@s.whatsapp.net''
         in case mediaContent w media of
              Inl e \<Rightarrow> (Inl e, [])
            | Inr c \<Rightarrow>
                afterSend w jid c
                  (outgoingData inst formatted (toLowerCase (m_type media))
                     (orElse (m_caption media) (m_type media @ '' media'')))
                  formatted
                  (m_type media @ '' media sent''
                     @ (if truthy (m_caption media)
                        then '' with caption: '' @ orElse (m_caption media) [] else []))
                  (m_type media @ '' media sent successfully'')))"

definition sendMediaMessage ::
  "world \<Rightarrow> waInstance \<Rightarrow> string \<Rightarrow> mediaData \<Rightarrow> (error + sendResult) \<times> effect list" where
  "sendMediaMessage w inst phoneNumber media =
     rethrow SendMediaFailed ''Error sending media message: ''
       (trySendMediaMessage w inst phoneNumber media)"

section \<open>The welcome batch of the group plugin\<close>

text \<open>
  \<^verbatim>\<open>welcome-group.plugin.js\<close> keeps, per group, an array of pending participants
  that carries an ad-hoc property \<^verbatim>\<open>scheduled\<close>: a \<open>batch\<close>. The module-level object
  \<^verbatim>\<open>groupParticipants\<close> is a partial map from the group id to the batch; a group id
  is a JID, never one of the property names that the object inherits.
  Clearing assigns a new empty array, which has no \<^verbatim>\<open>scheduled\<close> property, so the
  \<^verbatim>\<open>delete\<close> after it changes nothing.

  The timer's callback suspends twice, at \<^verbatim>\<open>await sock.groupMetadata\<close> and at
  \<^verbatim>\<open>await sock.sendMessage\<close>, and other calls of \<^verbatim>\<open>scheduleWelcome\<close> may run in
  between. The callback is therefore three steps: \<open>flushStart\<close> when the timer fires,
  \<open>flushAfterMetadata\<close> when the metadata call settles, \<open>flushAfterSend\<close> when the
  send settles. The state keeps which timers are armed and which callbacks are suspended
  where, and the messages handed to \<^verbatim>\<open>sock.sendMessage\<close> (the group and the mentioned
  participants).
\<close>

record batch =
  items :: "string list"
  scheduled :: bool

record notifier =
  groupParticipants :: "string \<rightharpoonup> batch"
  timers :: "string list"
  awaitingMetadata :: "string list"
  awaitingSend :: "string list"
  sent :: "(string \<times> string list) list"

definition newNotifier :: notifier where
  "newNotifier =
     \<lparr>groupParticipants = Map.empty, timers = [], awaitingMetadata = [], awaitingSend = [],
      sent = []\<rparr>"

definition emptyBatch :: batch where
  "emptyBatch = \<lparr>items = [], scheduled = False\<rparr>"

definition scheduleWelcome :: "string \<Rightarrow> string list \<Rightarrow> notifier \<Rightarrow> notifier" where
  "scheduleWelcome groupId participants s =
     (let existing = (case groupParticipants s groupId of None \<Rightarrow> emptyBatch | Some b \<Rightarrow> b);
          pushed = existing\<lparr>items := items existing @ participants\<rparr>
      in if \<not> scheduled pushed then
           s\<lparr>groupParticipants := (groupParticipants s)(groupId \<mapsto> pushed\<lparr>scheduled := True\<rparr>),
             timers := timers s @ [groupId]\<rparr>
         else s\<lparr>groupParticipants := (groupParticipants s)(groupId \<mapsto> pushed)\<rparr>)"

definition clearBatch :: "string \<Rightarrow> notifier \<Rightarrow> notifier" where
  "clearBatch groupId s =
     s\<lparr>groupParticipants := (groupParticipants s)(groupId \<mapsto> emptyBatch)\<rparr>"

text \<open>
  How \<^verbatim>\<open>sock.groupMetadata\<close> and the lines up to the admin test come out: something
  throws, or the bot is not an admin of the group, or it is.
\<close>

datatype metadataAnswer = MetadataThrows string | NotAdmin | IsAdmin

definition flushStart :: "string \<Rightarrow> notifier \<Rightarrow> notifier option" where
  "flushStart groupId s =
     (if groupId \<in> set (timers s) then
        Some (s\<lparr>timers := remove1 groupId (timers s),
                awaitingMetadata := awaitingMetadata s @ [groupId]\<rparr>)
      else None)"

definition flushAfterMetadata :: "string \<Rightarrow> metadataAnswer \<Rightarrow> notifier \<Rightarrow> notifier option" where
  "flushAfterMetadata groupId answer s =
     (if groupId \<in> set (awaitingMetadata s) then
        (let s1 = s\<lparr>awaitingMetadata := remove1 groupId (awaitingMetadata s)\<rparr> in
         case answer of
           MetadataThrows m \<Rightarrow> Some (clearBatch groupId s1)
         | NotAdmin \<Rightarrow> Some (clearBatch groupId s1)
         | IsAdmin \<Rightarrow>
             (case groupParticipants s1 groupId of
                None \<Rightarrow> Some (clearBatch groupId s1)
              | Some b \<Rightarrow>
                  Some (s1\<lparr>sent := sent s1 @ [(groupId, items b)],
                          awaitingSend := awaitingSend s1 @ [groupId]\<rparr>)))
      else None)"

definition flushAfterSend :: "string \<Rightarrow> string option \<Rightarrow> notifier \<Rightarrow> notifier option" where
  "flushAfterSend groupId thrown s =
     (if groupId \<in> set (awaitingSend s) then
        Some (clearBatch groupId (s\<lparr>awaitingSend := remove1 groupId (awaitingSend s)\<rparr>))
      else None)"

datatype notifierEvent =
    Accumulate string "string list"
  | TimerFires string
  | MetadataSettles string metadataAnswer
  | SendSettles string "string option"

fun notifierStep :: "notifierEvent \<Rightarrow> notifier \<Rightarrow> notifier option" where
  "notifierStep (Accumulate groupId participants) s = Some (scheduleWelcome groupId participants s)"
| "notifierStep (TimerFires groupId) s = flushStart groupId s"
| "notifierStep (MetadataSettles groupId answer) s = flushAfterMetadata groupId answer s"
| "notifierStep (SendSettles groupId thrown) s = flushAfterSend groupId thrown s"

fun notifierRun :: "notifierEvent list \<Rightarrow> notifier \<Rightarrow> notifier option" where
  "notifierRun [] s = Some s"
| "notifierRun (e # es) s =
     (case notifierStep e s of None \<Rightarrow> None | Some s' \<Rightarrow> notifierRun es s')"

text \<open>
  A key with no batch in progress: it has no entry, or its entry is the cleared one. The
  flag of a key. The flushes of a key that are armed or under way.
\<close>

definition fresh :: "notifier \<Rightarrow> string \<Rightarrow> bool" where
  "fresh s groupId =
     (groupParticipants s groupId = None \<or> groupParticipants s groupId = Some emptyBatch)"

definition scheduledIn :: "notifier \<Rightarrow> string \<Rightarrow> bool" where
  "scheduledIn s groupId =
     (case groupParticipants s groupId of None \<Rightarrow> False | Some b \<Rightarrow> scheduled b)"

definition flushes :: "notifier \<Rightarrow> string list" where
  "flushes s = timers s @ awaitingMetadata s @ awaitingSend s"

definition notifierInv :: "notifier \<Rightarrow> bool" where
  "notifierInv s =
     (distinct (flushes s)
      \<and> (\<forall>groupId. scheduledIn s groupId = (groupId \<in> set (flushes s)))
      \<and> (\<forall>groupId. \<not> scheduledIn s groupId \<longrightarrow> fresh s groupId))"

section \<open>Vocabulary of the lifecycle properties\<close>

text \<open>
  A close signal whose reason is not "logged out"; the events of one unresolved outage
  (no \<^verbatim>\<open>'open'\<close> signal, no close with the logged-out reason); the number of
  close signals among them.
\<close>

definition closeSignal :: "update \<Rightarrow> bool" where
  "closeSignal u = (connection u = Some Close \<and> statusCode u \<noteq> Some loggedOut)"

fun isClose :: "event \<Rightarrow> bool" where
  "isClose (ConnectionUpdate u) = (connection u = Some Close)"
| "isClose (ReconnectTimer out) = False"

fun outageEvent :: "event \<Rightarrow> bool" where
  "outageEvent (ConnectionUpdate u) =
     (connection u \<noteq> Some Open
      \<and> (connection u = Some Close \<longrightarrow> statusCode u \<noteq> Some loggedOut))"
| "outageEvent (ReconnectTimer out) = True"

definition closes :: "event list \<Rightarrow> nat" where
  "closes evs = length (filter isClose evs)"

definition loggedOutPayloads :: "effect list \<Rightarrow> connData list" where
  "loggedOutPayloads es = filter (\<lambda>d. cd_status d = ''logged_out'') (connPayloads es)"

section \<open>Example inputs\<close>

text \<open>
  A world with two enabled webhooks, the first answering 200 and the second timing out;
  a close signal for a lost connection; an instance that is connected.
\<close>

definition twoHooks :: world where
  "twoHooks =
     \<lparr>getEnabledWebhooks =
        (\<lambda>ev. Inr [\<lparr>wh_id = 1, wh_url = ''http://a.example/hook''\<rparr>,
                   \<lparr>wh_id = 2, wh_url = ''http://b.example/hook''\<rparr>]),
      axiosPost =
        (\<lambda>wh ev.
           if wh_id wh = 1
           then Resolved \<lparr>rs_status = 200, rs_statusText = ''OK'', rs_data = []\<rparr> 12
           else Rejected \<lparr>ae_code = Some ''ECONNABORTED'', ae_response = None,
                          ae_message = ''timeout of 5000ms exceeded''\<rparr> 5000),
      historyCreate = (\<lambda>h. None),
      messageCreate = (\<lambda>m. None),
      sockSendMessage = (\<lambda>jid c. Inr ''3EB0''),
      wsClose = None,
      sockLogout = None,
      sockUserId = Some ''6281234567:7@s.whatsapp.net'',
      watermark = ''> Sent via Whisper''\<rparr>"

definition lostConnection :: update where
  "lostConnection = \<lparr>connection = Some Close, statusCode = Some 408, qr = None\<rparr>"

definition liveInstance :: waInstance where
  "liveInstance =
     (newInstance ''6281234567'')
       \<lparr>sock := True, isConnected := True, connectionStatus := Connected\<rparr>"

text \<open>
  A world whose first webhook answers 500 and whose history service refuses the record
  of that webhook.
\<close>

definition brokenWorld :: world where
  "brokenWorld =
     twoHooks
       \<lparr>axiosPost :=
          (\<lambda>wh ev.
             if wh_id wh = 1
             then Rejected \<lparr>ae_code = Some ''ERR_BAD_RESPONSE'',
                            ae_response = Some \<lparr>rs_status = 500,
                              rs_statusText = ''Internal Server Error'', rs_data = ''down''\<rparr>,
                            ae_message = ''Request failed with status code 500''\<rparr> 40
             else Resolved \<lparr>rs_status = 200, rs_statusText = ''OK'', rs_data = []\<rparr> 12),
        historyCreate :=
          (\<lambda>h. if h_webhookId h = 1 then Some ''connection refused'' else None)\<rparr>"

definition firstHook :: webhook where
  "firstHook = \<lparr>wh_id = 1, wh_url = ''http://a.example/hook''\<rparr>"

definition secondHook :: webhook where
  "secondHook = \<lparr>wh_id = 2, wh_url = ''http://b.example/hook''\<rparr>"

definition connectedData :: eventData where
  "connectedData =
     ConnectionData (connPayload ''connected'' ''WhatsApp connection established successfully'')"

section \<open>Vocabulary of the webhook properties\<close>

text \<open>
  Read from a trace: the history objects given to \<^verbatim>\<open>webhookHistoryService.create\<close>,
  the webhooks a POST was issued to, the issue and settle entries of the POSTs, and the
  logged failures to save a history record.
\<close>

fun historiesOf :: "effect list \<Rightarrow> history list" where
  "historiesOf [] = []"
| "historiesOf (HistoryCreate h # es) = h # historiesOf es"
| "historiesOf (e # es) = historiesOf es"

fun postsOf :: "effect list \<Rightarrow> nat list" where
  "postsOf [] = []"
| "postsOf (HttpPost i url # es) = i # postsOf es"
| "postsOf (e # es) = postsOf es"



fun saveFailures :: "effect list \<Rightarrow> (nat \<times> string) list" where
  "saveFailures [] = []"
| "saveFailures (LogError (HistorySaveFailed i) m # es) = (i, m) # saveFailures es"
| "saveFailures (e # es) = saveFailures es"

text \<open>The history object the loop builds for one webhook.\<close>

definition deliveryRecord :: "world \<Rightarrow> string \<Rightarrow> eventData \<Rightarrow> webhook \<Rightarrow> history" where
  "deliveryRecord w event data wh =
     settledHistory (pendingHistory event data wh) (axiosPost w wh event)"

text \<open>
  The outcome of a POST as the code tells it apart: the promise resolved (axios does so
  for a response of the 2xx class), or it was rejected with the code
  \<^verbatim>\<open>ECONNABORTED\<close> (axios's timeout), or it was rejected otherwise.
\<close>

fun resolved :: "postResult \<Rightarrow> bool" where
  "resolved (Resolved resp t) = True"
| "resolved (Rejected err t) = False"

fun timedOut :: "postResult \<Rightarrow> bool" where
  "timedOut (Resolved resp t) = False"
| "timedOut (Rejected err t) = (ae_code err = Some ''ECONNABORTED'')"

fun rejectedResponse :: "postResult \<Rightarrow> response option" where
  "rejectedResponse (Resolved resp t) = None"
| "rejectedResponse (Rejected err t) = ae_response err"


section \<open>Vocabulary of the dispatch and send properties\<close>

text \<open>
  Every plugin has a config: the constructor establishes it and \<^verbatim>\<open>loadPlugins\<close>,
  \<^verbatim>\<open>enablePlugin\<close>, \<^verbatim>\<open>disablePlugin\<close> and \<^verbatim>\<open>reloadPlugins\<close> keep it.
\<close>

definition wellFormed :: "pluginManager \<Rightarrow> bool" where
  "wellFormed pm = list_all (\<lambda>p. mapHas (pluginConfigs pm) (fst p)) (plugins pm)"




fun pluginCalls :: "effect list \<Rightarrow> string list" where
  "pluginCalls [] = []"
| "pluginCalls (PluginCall n # es) = n # pluginCalls es"
| "pluginCalls (e # es) = pluginCalls es"


fun messageCreates :: "effect list \<Rightarrow> messageData list" where
  "messageCreates [] = []"
| "messageCreates (MessageCreate d # es) = d # messageCreates es"
| "messageCreates (e # es) = messageCreates es"

fun triggersOf :: "effect list \<Rightarrow> (string \<times> eventData) list" where
  "triggersOf [] = []"
| "triggersOf (Trigger ev d # es) = (ev, d) # triggersOf es"
| "triggersOf (e # es) = triggersOf es"

fun sendsOf :: "effect list \<Rightarrow> (string \<times> content) list" where
  "sendsOf [] = []"
| "sendsOf (SockSend jid c # es) = (jid, c) # sendsOf es"
| "sendsOf (e # es) = sendsOf es"

text \<open>
  The message store after a trace: every record given to \<^verbatim>\<open>messageService.create\<close>
  is appended unless the service threw.
\<close>

fun messageStore :: "world \<Rightarrow> effect list \<Rightarrow> messageData list \<Rightarrow> messageData list" where
  "messageStore w [] store = store"
| "messageStore w (MessageCreate d # es) store =
     messageStore w es (case messageCreate w d of None \<Rightarrow> store @ [d] | Some e \<Rightarrow> store)"
| "messageStore w (e # es) store = messageStore w es store"




definition photo :: mediaData where
  "photo =
     \<lparr>m_type = ''Image'', m_url = ''http://a.example/cat.png'', m_caption = Some ''a cat'',
      m_filename = None\<rparr>"

text \<open>
  Three bursts of joins in one group, and the state in which their flush waits for the
  group's metadata.
\<close>

definition bursts :: "string list list" where
  "bursts = [[''alice@s.whatsapp.net''], [''bob@s.whatsapp.net'', ''carol@s.whatsapp.net''],
             [''dave@s.whatsapp.net'']]"

definition joined :: notifier where
  "joined = fold (scheduleWelcome ''120363@g.us'') bursts newNotifier"

definition flushing :: notifier where
  "flushing =
     newNotifier
       \<lparr>groupParticipants :=
          [''120363@g.us'' \<mapsto> \<lparr>items = concat bursts, scheduled = True\<rparr>],
        awaitingMetadata := [''120363@g.us'']\<rparr>"

definition sending :: notifier where
  "sending =
     newNotifier
       \<lparr>groupParticipants :=
          [''120363@g.us'' \<mapsto> \<lparr>items = concat bursts, scheduled = True\<rparr>],
        awaitingSend := [''120363@g.us''],
        sent := [(''120363@g.us'', concat bursts)]\<rparr>"

section \<open>Properties of the phone-number normalisation\<close>

lemma isDigit_filter: "\<forall>c \<in> set (filter isDigit s). isDigit c"
  by simp

lemma formattedNumber_digits: "list_all isDigit (formattedNumber s)"
proof -
  have d: "list_all isDigit (filter isDigit s)"
    by (simp add: list_all_iff)
  have p: "list_all isDigit ''62''"
    by (simp add: isDigit_def)
  have t: "list_all isDigit (drop 1 (filter isDigit s))"
    using d by (auto simp: list_all_iff dest: in_set_dropD)
  show ?thesis
    using d p t by (simp add: formattedNumber_def Let_def)
qed

lemma formattedNumber_prefix: "startsWith (formattedNumber s) ''62''"
  by (simp add: formattedNumber_def Let_def startsWith_def)

text \<open>
  Claim C7. For every input string the normalisation keeps only the digits; when the
  digits already start with 62 they are the result; when they start with 0 that 0 is
  replaced by 62; otherwise 62 is put in front. The result is made of digits only and
  starts with 62. "081234567" and "81234567" both give "6281234567", and "6281234567"
  is unchanged.
\<close>

theorem C7_phone_normalisation:
  "(startsWith (filter isDigit s) ''62'' \<longrightarrow> formattedNumber s = filter isDigit s)
   \<and> (\<not> startsWith (filter isDigit s) ''62'' \<and> startsWith (filter isDigit s) ''0''
        \<longrightarrow> formattedNumber s = ''62'' @ tl (filter isDigit s))
   \<and> (\<not> startsWith (filter isDigit s) ''62'' \<and> \<not> startsWith (filter isDigit s) ''0''
        \<longrightarrow> formattedNumber s = ''62'' @ filter isDigit s)
   \<and> list_all isDigit (formattedNumber s)
   \<and> startsWith (formattedNumber s) ''62''
   \<and> formattedNumber ''081234567'' = ''6281234567''
   \<and> formattedNumber ''81234567'' = ''6281234567''
   \<and> formattedNumber ''6281234567'' = ''6281234567''"
proof -
  have a: "startsWith (filter isDigit s) ''62'' \<longrightarrow> formattedNumber s = filter isDigit s"
    by (simp add: formattedNumber_def Let_def)
  have b: "\<not> startsWith (filter isDigit s) ''62'' \<and> startsWith (filter isDigit s) ''0''
        \<longrightarrow> formattedNumber s = ''62'' @ tl (filter isDigit s)"
    by (simp add: formattedNumber_def Let_def drop_Suc)
  have c: "\<not> startsWith (filter isDigit s) ''62'' \<and> \<not> startsWith (filter isDigit s) ''0''
        \<longrightarrow> formattedNumber s = ''62'' @ filter isDigit s"
    by (simp add: formattedNumber_def Let_def)
  have e1: "formattedNumber ''081234567'' = ''6281234567''"
    by (simp add: formattedNumber_def Let_def startsWith_def isDigit_def)
  have e2: "formattedNumber ''81234567'' = ''6281234567''"
    by (simp add: formattedNumber_def Let_def startsWith_def isDigit_def)
  have e3: "formattedNumber ''6281234567'' = ''6281234567''"
    by (simp add: formattedNumber_def Let_def startsWith_def isDigit_def)
  from a b c formattedNumber_digits [of s] formattedNumber_prefix [of s] e1 e2 e3
  show ?thesis by blast
qed

theorem C7_phone_normalisation_witness:
  "startsWith (filter isDigit ''+62 812-3456'') ''62''
   \<and> formattedNumber ''+62 812-3456'' = ''628123456''
   \<and> \<not> startsWith (filter isDigit ''(0812) 3456'') ''62''
   \<and> startsWith (filter isDigit ''(0812) 3456'') ''0''
   \<and> formattedNumber ''(0812) 3456'' = ''628123456''
   \<and> \<not> startsWith (filter isDigit ''812 3456'') ''62''
   \<and> \<not> startsWith (filter isDigit ''812 3456'') ''0''
   \<and> formattedNumber ''812 3456'' = ''628123456''"
proof -
  have h1: "startsWith (filter isDigit ''+62 812-3456'') ''62''"
    by (simp add: startsWith_def isDigit_def)
  have h2: "\<not> startsWith (filter isDigit ''(0812) 3456'') ''62''
            \<and> startsWith (filter isDigit ''(0812) 3456'') ''0''"
    by (simp add: startsWith_def isDigit_def)
  have h3: "\<not> startsWith (filter isDigit ''812 3456'') ''62''
            \<and> \<not> startsWith (filter isDigit ''812 3456'') ''0''"
    by (simp add: startsWith_def isDigit_def)
  have d1: "filter isDigit ''+62 812-3456'' = ''628123456''"
    by (simp add: isDigit_def)
  have d2: "filter isDigit ''(0812) 3456'' = ''08123456''"
    by (simp add: isDigit_def)
  have d3: "filter isDigit ''812 3456'' = ''8123456''"
    by (simp add: isDigit_def)
  have r1: "formattedNumber ''+62 812-3456'' = ''628123456''"
    using C7_phone_normalisation [of "''+62 812-3456''"] h1 d1 by simp
  have r2: "formattedNumber ''(0812) 3456'' = ''628123456''"
    using C7_phone_normalisation [of "''(0812) 3456''"] h2 d2 by simp
  have r3: "formattedNumber ''812 3456'' = ''628123456''"
    using C7_phone_normalisation [of "''812 3456''"] h3 d3 by simp
  from h1 h2 h3 r1 r2 r3 show ?thesis by blast
qed

section \<open>Properties of the connection state machine\<close>

subsection \<open>Timers and payloads of a trace\<close>

lemma timersOf_append: "timersOf (a @ b) = timersOf a @ timersOf b"
  by (induction a rule: timersOf.induct) simp_all

lemma timersOf_deliver: "timersOf (deliver w ev d wh) = []"
  by (simp add: deliver_def Let_def postLog_def saveHistory_def timersOf_append
      split: postResult.splits option.splits)

lemma timersOf_deliverAll: "timersOf (deliverAll w ev d whs) = []"
  by (induction whs) (simp_all add: timersOf_append timersOf_deliver)

lemma timersOf_triggerWebhooks: "timersOf (triggerWebhooks w ev d) = []"
  by (simp add: triggerWebhooks_def timersOf_deliverAll split: sum.splits)

lemma connPayloads_append: "connPayloads (a @ b) = connPayloads a @ connPayloads b"
  by (induction a rule: connPayloads.induct) simp_all

lemma connPayloads_deliver: "connPayloads (deliver w ev d wh) = []"
  by (simp add: deliver_def Let_def postLog_def saveHistory_def connPayloads_append
      split: postResult.splits option.splits)

lemma connPayloads_deliverAll: "connPayloads (deliverAll w ev d whs) = []"
  by (induction whs) (simp_all add: connPayloads_append connPayloads_deliver)

lemma connPayloads_triggerWebhooks:
  "connPayloads (triggerWebhooks w ev (ConnectionData d)) = [d]"
  by (simp add: triggerWebhooks_def connPayloads_deliverAll split: sum.splits)

lemma onQr_fst:
  "fst (onQr w u inst) =
     (if truthy (qr u) then inst\<lparr>qrCode := qr u, connectionStatus := QrReady\<rparr> else inst)"
  by (simp add: onQr_def)

lemma onQr_timers: "timersOf (snd (onQr w u inst)) = []"
  by (simp add: onQr_def timersOf_triggerWebhooks)

lemma connectionUpdate_fst:
  "fst (connectionUpdate w u inst) =
     (case connection u of
        Some Close \<Rightarrow> fst (onClose w u (fst (onQr w u inst)))
      | Some Open \<Rightarrow> fst (onOpen w (fst (onQr w u inst)))
      | Some ConnectingSignal \<Rightarrow> fst (onConnecting w (fst (onQr w u inst)))
      | None \<Rightarrow> fst (onQr w u inst))"
  by (simp add: connectionUpdate_def split_beta split: option.splits connection.splits)

lemma connectionUpdate_timers:
  "timersOf (snd (connectionUpdate w u inst)) =
     (case connection u of
        Some Close \<Rightarrow> timersOf (snd (onClose w u (fst (onQr w u inst))))
      | Some Open \<Rightarrow> []
      | Some ConnectingSignal \<Rightarrow> []
      | None \<Rightarrow> [])"
  by (simp add: connectionUpdate_def split_beta timersOf_append onQr_timers onOpen_def
      onConnecting_def Let_def timersOf_triggerWebhooks
      split: option.splits connection.splits)

lemma onClose_reconnect:
  assumes "statusCode u \<noteq> Some loggedOut" "\<not> isManualRestart inst"
    "reconnectAttempts inst < maxReconnectAttempts inst"
  shows "fst (onClose w u inst) =
           inst\<lparr>reconnectAttempts := reconnectAttempts inst + 1,
                connectionStatus := Reconnecting, isConnected := False\<rparr>"
    and "timersOf (snd (onClose w u inst)) = [(5000, Reinitialize)]"
  using assms by (simp_all add: onClose_def Let_def timersOf_append timersOf_triggerWebhooks)

lemma onClose_logged_out:
  assumes "\<not> (statusCode u \<noteq> Some loggedOut \<and> \<not> isManualRestart inst
      \<and> reconnectAttempts inst < maxReconnectAttempts inst)"
  shows "fst (onClose w u inst) =
           inst\<lparr>isManualRestart := False, connectionStatus := LoggedOut, isConnected := False\<rparr>"
    and "timersOf (snd (onClose w u inst)) = []"
  using assms by (auto simp add: onClose_def Let_def timersOf_append timersOf_triggerWebhooks)

subsection \<open>What the steps keep\<close>

lemma initialize_fields:
  "reconnectAttempts (fst (initialize out inst)) = reconnectAttempts inst"
  "maxReconnectAttempts (fst (initialize out inst)) = maxReconnectAttempts inst"
  "isManualRestart (fst (initialize out inst)) = isManualRestart inst"
  by (simp_all add: initialize_def split: initOutcome.splits)

lemma onQr_fields:
  "reconnectAttempts (fst (onQr w u inst)) = reconnectAttempts inst"
  "maxReconnectAttempts (fst (onQr w u inst)) = maxReconnectAttempts inst"
  "isManualRestart (fst (onQr w u inst)) = isManualRestart inst"
  by (simp_all add: onQr_fst)

lemma onClose_attempts:
  "reconnectAttempts (fst (onClose w u inst)) =
     (if statusCode u \<noteq> Some loggedOut \<and> \<not> isManualRestart inst
         \<and> reconnectAttempts inst < maxReconnectAttempts inst
      then reconnectAttempts inst + 1 else reconnectAttempts inst)"
  by (simp add: onClose_def Let_def)

lemma onClose_status:
  "connectionStatus (fst (onClose w u inst)) =
     (if statusCode u \<noteq> Some loggedOut \<and> \<not> isManualRestart inst
         \<and> reconnectAttempts inst < maxReconnectAttempts inst
      then Reconnecting else LoggedOut)"
  by (simp add: onClose_def Let_def)

lemma onClose_max:
  "maxReconnectAttempts (fst (onClose w u inst)) = maxReconnectAttempts inst"
  by (simp add: onClose_def Let_def)

lemma onClose_flag: "\<not> isManualRestart (fst (onClose w u inst))"
  by (simp add: onClose_def Let_def)

lemma step_max:
  "maxReconnectAttempts (fst (step w e inst)) = maxReconnectAttempts inst"
  by (cases e)
    (simp_all add: connectionUpdate_fst onClose_max onQr_fields initialize_fields
      onOpen_def onConnecting_def Let_def split: option.splits connection.splits)

lemma step_flag:
  "\<not> isManualRestart inst \<Longrightarrow> \<not> isManualRestart (fst (step w e inst))"
  by (cases e)
    (simp_all add: connectionUpdate_fst onClose_flag onQr_fields initialize_fields
      onOpen_def onConnecting_def Let_def split: option.splits connection.splits)

lemma step_bound:
  "reconnectAttempts inst \<le> maxReconnectAttempts inst \<Longrightarrow>
   reconnectAttempts (fst (step w e inst)) \<le> maxReconnectAttempts inst"
  by (cases e)
    (simp_all add: connectionUpdate_fst onClose_attempts onQr_fields initialize_fields
      onOpen_def onConnecting_def Let_def split: option.splits connection.splits)

lemma run_fst_Cons: "fst (run w (e # es) inst) = fst (run w es (fst (step w e inst)))"
  by (simp add: split_beta)

lemma run_fst_append: "fst (run w (a @ b) inst) = fst (run w b (fst (run w a inst)))"
  by (induction a arbitrary: inst) (simp_all add: split_beta)

lemma run_max: "maxReconnectAttempts (fst (run w evs inst)) = maxReconnectAttempts inst"
  by (induction evs arbitrary: inst) (simp_all add: split_beta step_max)

lemma run_bound:
  "reconnectAttempts inst \<le> maxReconnectAttempts inst \<Longrightarrow>
   reconnectAttempts (fst (run w evs inst)) \<le> maxReconnectAttempts inst"
proof (induction evs arbitrary: inst)
  case Nil
  then show ?case by simp
next
  case (Cons e evs)
  have "reconnectAttempts (fst (step w e inst)) \<le> maxReconnectAttempts (fst (step w e inst))"
    using Cons.prems by (simp add: step_bound step_max)
  from Cons.IH [OF this] show ?case
    by (simp add: split_beta step_max)
qed

lemma run_flag:
  "\<not> isManualRestart inst \<Longrightarrow> \<not> isManualRestart (fst (run w evs inst))"
  by (induction evs arbitrary: inst) (simp_all add: split_beta step_flag)

lemma step_outage:
  assumes "outageEvent e" "\<not> isManualRestart inst"
  shows "reconnectAttempts (fst (step w e inst)) =
           (if isClose e \<and> reconnectAttempts inst < maxReconnectAttempts inst
            then reconnectAttempts inst + 1 else reconnectAttempts inst)"
  using assms
  by (cases e)
    (auto simp add: connectionUpdate_fst onClose_attempts onQr_fields initialize_fields
      onConnecting_def Let_def split: option.splits connection.splits)

lemma run_outage:
  assumes "list_all outageEvent evs" "\<not> isManualRestart inst"
    "reconnectAttempts inst \<le> maxReconnectAttempts inst"
  shows "reconnectAttempts (fst (run w evs inst)) =
           min (reconnectAttempts inst + closes evs) (maxReconnectAttempts inst)"
  using assms
proof (induction evs arbitrary: inst)
  case Nil
  then show ?case by (simp add: closes_def)
next
  case (Cons e evs)
  let ?i = "fst (step w e inst)"
  have e: "outageEvent e" and rest: "list_all outageEvent evs"
    using Cons.prems(1) by simp_all
  have f: "\<not> isManualRestart ?i"
    using Cons.prems(2) by (rule step_flag)
  have b: "reconnectAttempts ?i \<le> maxReconnectAttempts ?i"
    using Cons.prems(3) by (simp add: step_bound step_max)
  have a: "reconnectAttempts ?i =
      (if isClose e \<and> reconnectAttempts inst < maxReconnectAttempts inst
       then reconnectAttempts inst + 1 else reconnectAttempts inst)"
    using e Cons.prems(2) by (rule step_outage)
  have "reconnectAttempts (fst (run w evs ?i)) =
      min (reconnectAttempts ?i + closes evs) (maxReconnectAttempts ?i)"
    using rest f b by (rule Cons.IH)
  moreover have "fst (run w (e # evs) inst) = fst (run w evs ?i)"
    by (rule run_fst_Cons)
  moreover have "closes (e # evs) = (if isClose e then 1 else 0) + closes evs"
    by (simp add: closes_def)
  moreover have "maxReconnectAttempts ?i = maxReconnectAttempts inst"
    by (rule step_max)
  ultimately show ?case
    using a Cons.prems(3) by (simp only: split: if_splits) auto
qed

lemma logout_deliverAll: "SockLogout \<notin> set (deliverAll w ev d whs)"
  by (induction whs)
    (auto simp add: deliver_def Let_def postLog_def saveHistory_def
      split: postResult.splits option.splits)

lemma logout_triggerWebhooks: "SockLogout \<notin> set (triggerWebhooks w ev d)"
  by (simp add: triggerWebhooks_def logout_deliverAll split: sum.splits)

lemma logout_connectionUpdate: "SockLogout \<notin> set (snd (connectionUpdate w u inst))"
  by (simp add: connectionUpdate_def split_beta onQr_def onClose_def onOpen_def
      onConnecting_def Let_def logout_triggerWebhooks
      split: option.splits connection.splits)

lemma logout_initialize: "SockLogout \<notin> set (snd (initialize out inst))"
  by (simp add: initialize_def initFailure_def split: initOutcome.splits)

lemma logout_closeInstance: "SockLogout \<notin> set (snd (closeInstance w inst))"
  by (simp add: closeInstance_def split: option.splits)

lemma timersOf_initialize: "timersOf (snd (initialize out inst)) = []"
  by (simp add: initialize_def initFailure_def split: initOutcome.splits)

lemma timersOf_closeInstance: "timersOf (snd (closeInstance w inst)) = []"
  by (simp add: closeInstance_def split: option.splits)

lemma flagged_close:
  assumes "isManualRestart inst" "connection u = Some Close"
  shows "connectionStatus (fst (connectionUpdate w u inst)) = LoggedOut"
    and "\<not> isManualRestart (fst (connectionUpdate w u inst))"
    and "timersOf (snd (connectionUpdate w u inst)) = []"
proof -
  let ?q = "fst (onQr w u inst)"
  have n: "\<not> (statusCode u \<noteq> Some loggedOut \<and> \<not> isManualRestart ?q
      \<and> reconnectAttempts ?q < maxReconnectAttempts ?q)"
    using assms(1) by (simp add: onQr_fields)
  show "connectionStatus (fst (connectionUpdate w u inst)) = LoggedOut"
    and "\<not> isManualRestart (fst (connectionUpdate w u inst))"
    and "timersOf (snd (connectionUpdate w u inst)) = []"
    using assms(2) onClose_logged_out [OF n, of w]
    by (simp_all add: connectionUpdate_fst connectionUpdate_timers)
qed

lemma loggedOutPayloads_connectionUpdate:
  assumes "connection u = Some Close"
    and "\<not> (statusCode u \<noteq> Some loggedOut \<and> \<not> isManualRestart inst
      \<and> reconnectAttempts inst < maxReconnectAttempts inst)"
  shows "loggedOutPayloads (snd (connectionUpdate w u inst)) =
     [(connPayload ''logged_out'' ''Logged out or max reconnect attempts reached'')
        \<lparr>cd_disconnectReason := statusCode u, cd_wasManualRestart := Some False\<rparr>]"
  using assms
  by (auto simp add: loggedOutPayloads_def connectionUpdate_def split_beta onQr_def
      onClose_def Let_def connPayloads_append connPayloads_triggerWebhooks connPayload_def)

subsection \<open>The reconnect ceiling\<close>

text \<open>
  Claim C1. From the constructor's state no sequence of socket signals and reconnect
  timers takes \<^verbatim>\<open>reconnectAttempts\<close> above 5. A close signal with a reason other than
  "logged out", processed with no manual restart in progress, increments the counter,
  enters \<open>Reconnecting\<close> and arms the 5000 ms reconnect timer when the counter is below
  the ceiling, and otherwise enters \<open>LoggedOut\<close>, leaves the counter alone and arms no
  timer. In one unresolved outage that starts with the counter at 0, the close signal
  that follows \<open>k\<close> earlier ones yields \<open>Reconnecting\<close> for \<open>k < 5\<close> and
  \<open>LoggedOut\<close> from the sixth on, and the counter is \<open>min (k + 1) 5\<close>.
\<close>

theorem C1_reconnect_ceiling:
  "reconnectAttempts (fst (run w evs (newInstance p))) \<le> 5
   \<and> (closeSignal u \<and> \<not> isManualRestart inst
        \<and> reconnectAttempts inst < maxReconnectAttempts inst \<longrightarrow>
        reconnectAttempts (fst (connectionUpdate w u inst)) = reconnectAttempts inst + 1
        \<and> connectionStatus (fst (connectionUpdate w u inst)) = Reconnecting
        \<and> timersOf (snd (connectionUpdate w u inst)) = [(5000, Reinitialize)])
   \<and> (closeSignal u \<and> \<not> isManualRestart inst
        \<and> \<not> reconnectAttempts inst < maxReconnectAttempts inst \<longrightarrow>
        reconnectAttempts (fst (connectionUpdate w u inst)) = reconnectAttempts inst
        \<and> connectionStatus (fst (connectionUpdate w u inst)) = LoggedOut
        \<and> timersOf (snd (connectionUpdate w u inst)) = [])
   \<and> (list_all outageEvent outage \<and> closeSignal u \<and> \<not> isManualRestart inst
        \<and> reconnectAttempts inst = 0 \<and> maxReconnectAttempts inst = 5 \<longrightarrow>
        connectionStatus (fst (run w (outage @ [ConnectionUpdate u]) inst)) =
          (if closes outage < 5 then Reconnecting else LoggedOut)
        \<and> reconnectAttempts (fst (run w (outage @ [ConnectionUpdate u]) inst)) =
          min (closes outage + 1) 5)"
proof -
  have bound: "reconnectAttempts (fst (run w evs (newInstance p))) \<le> 5"
    using run_bound [of "newInstance p" w evs] by (simp add: newInstance_def)
  have below: "reconnectAttempts (fst (connectionUpdate w u inst)) = reconnectAttempts inst + 1
        \<and> connectionStatus (fst (connectionUpdate w u inst)) = Reconnecting
        \<and> timersOf (snd (connectionUpdate w u inst)) = [(5000, Reinitialize)]"
    if "closeSignal u" "\<not> isManualRestart inst"
      "reconnectAttempts inst < maxReconnectAttempts inst"
    for inst
  proof -
    let ?q = "fst (onQr w u inst)"
    have c: "connection u = Some Close" and s: "statusCode u \<noteq> Some loggedOut"
      using that(1) by (simp_all add: closeSignal_def)
    have f: "\<not> isManualRestart ?q"
      and a: "reconnectAttempts ?q < maxReconnectAttempts ?q"
      using that by (simp_all add: onQr_fields)
    show ?thesis
      using c onClose_reconnect [OF s f a, of w]
      by (simp add: connectionUpdate_fst connectionUpdate_timers onQr_fields)
  qed
  have ceiling: "reconnectAttempts (fst (connectionUpdate w u inst)) = reconnectAttempts inst
        \<and> connectionStatus (fst (connectionUpdate w u inst)) = LoggedOut
        \<and> timersOf (snd (connectionUpdate w u inst)) = []"
    if "closeSignal u" "\<not> reconnectAttempts inst < maxReconnectAttempts inst"
    for inst
  proof -
    let ?q = "fst (onQr w u inst)"
    have c: "connection u = Some Close"
      using that(1) by (simp add: closeSignal_def)
    have n: "\<not> (statusCode u \<noteq> Some loggedOut \<and> \<not> isManualRestart ?q
        \<and> reconnectAttempts ?q < maxReconnectAttempts ?q)"
      using that(2) by (simp add: onQr_fields)
    show ?thesis
      using c onClose_logged_out [OF n, of w]
      by (simp add: connectionUpdate_fst connectionUpdate_timers onQr_fields)
  qed
  have sixth: "connectionStatus (fst (run w (outage @ [ConnectionUpdate u]) inst)) =
          (if closes outage < 5 then Reconnecting else LoggedOut)
        \<and> reconnectAttempts (fst (run w (outage @ [ConnectionUpdate u]) inst)) =
          min (closes outage + 1) 5"
    if o: "list_all outageEvent outage" and u: "closeSignal u"
      and f: "\<not> isManualRestart inst"
      and z: "reconnectAttempts inst = 0" and m: "maxReconnectAttempts inst = 5"
  proof -
    let ?i = "fst (run w outage inst)"
    have a: "reconnectAttempts ?i = min (closes outage) 5"
      using run_outage [OF o f, of w] z m by simp
    have mx: "maxReconnectAttempts ?i = 5"
      using m by (simp add: run_max)
    have fl: "\<not> isManualRestart ?i"
      using f by (rule run_flag)
    have r: "fst (run w (outage @ [ConnectionUpdate u]) inst) = fst (connectionUpdate w u ?i)"
      by (simp add: run_fst_append split_beta)
    show ?thesis
    proof (cases "closes outage < 5")
      case True
      then have "reconnectAttempts ?i < maxReconnectAttempts ?i"
        using a mx by simp
      from below [OF u fl this] True a show ?thesis
        unfolding r by simp
    next
      case False
      then have "\<not> reconnectAttempts ?i < maxReconnectAttempts ?i"
        using a mx by simp
      from ceiling [OF u this] False a show ?thesis
        unfolding r by simp
    qed
  qed
  from bound below ceiling sixth show ?thesis by blast
qed

theorem C1_reconnect_ceiling_witness:
  "closeSignal lostConnection
   \<and> \<not> isManualRestart (newInstance ''6281234567'')
   \<and> reconnectAttempts (newInstance ''6281234567'')
       < maxReconnectAttempts (newInstance ''6281234567'')
   \<and> reconnectAttempts (fst (connectionUpdate twoHooks lostConnection
         (newInstance ''6281234567''))) = 1
   \<and> connectionStatus (fst (connectionUpdate twoHooks lostConnection
         (newInstance ''6281234567''))) = Reconnecting
   \<and> \<not> reconnectAttempts ((newInstance ''6281234567'')\<lparr>reconnectAttempts := 5\<rparr>)
         < maxReconnectAttempts ((newInstance ''6281234567'')\<lparr>reconnectAttempts := 5\<rparr>)
   \<and> connectionStatus (fst (connectionUpdate twoHooks lostConnection
         ((newInstance ''6281234567'')\<lparr>reconnectAttempts := 5\<rparr>))) = LoggedOut
   \<and> list_all outageEvent
         [ConnectionUpdate lostConnection, ReconnectTimer InitOk,
          ConnectionUpdate lostConnection, ReconnectTimer InitOk,
          ConnectionUpdate lostConnection, ReconnectTimer InitOk,
          ConnectionUpdate lostConnection, ReconnectTimer InitOk,
          ConnectionUpdate lostConnection, ReconnectTimer InitOk]
   \<and> connectionStatus (fst (run twoHooks
         ([ConnectionUpdate lostConnection, ReconnectTimer InitOk,
           ConnectionUpdate lostConnection, ReconnectTimer InitOk,
           ConnectionUpdate lostConnection, ReconnectTimer InitOk,
           ConnectionUpdate lostConnection, ReconnectTimer InitOk,
           ConnectionUpdate lostConnection, ReconnectTimer InitOk]
          @ [ConnectionUpdate lostConnection])
         (newInstance ''6281234567''))) = LoggedOut
   \<and> reconnectAttempts (fst (run twoHooks
         ([ConnectionUpdate lostConnection, ReconnectTimer InitOk,
           ConnectionUpdate lostConnection, ReconnectTimer InitOk,
           ConnectionUpdate lostConnection, ReconnectTimer InitOk,
           ConnectionUpdate lostConnection, ReconnectTimer InitOk,
           ConnectionUpdate lostConnection, ReconnectTimer InitOk]
          @ [ConnectionUpdate lostConnection])
         (newInstance ''6281234567''))) = 5"
proof -
  let ?new = "newInstance ''6281234567''"
  let ?full = "?new\<lparr>reconnectAttempts := 5\<rparr>"
  let ?outage =
    "[ConnectionUpdate lostConnection, ReconnectTimer InitOk,
      ConnectionUpdate lostConnection, ReconnectTimer InitOk,
      ConnectionUpdate lostConnection, ReconnectTimer InitOk,
      ConnectionUpdate lostConnection, ReconnectTimer InitOk,
      ConnectionUpdate lostConnection, ReconnectTimer InitOk]"
  have c: "closeSignal lostConnection"
    by (simp add: closeSignal_def lostConnection_def loggedOut_def)
  have n: "\<not> isManualRestart ?new" "reconnectAttempts ?new < maxReconnectAttempts ?new"
    "reconnectAttempts ?new = 0" "maxReconnectAttempts ?new = 5"
    by (simp_all add: newInstance_def)
  have f: "\<not> isManualRestart ?full"
    "\<not> reconnectAttempts ?full < maxReconnectAttempts ?full"
    by (simp_all add: newInstance_def)
  have o: "list_all outageEvent ?outage"
    by (simp add: lostConnection_def loggedOut_def)
  have k: "closes ?outage = 5"
    by (simp add: closes_def lostConnection_def)
  from C1_reconnect_ceiling [of twoHooks "[]" "''6281234567''" lostConnection ?new ?outage]
    C1_reconnect_ceiling [of twoHooks "[]" "''6281234567''" lostConnection ?full "[]"]
    c n f o k
  show ?thesis by simp
qed

subsection \<open>Manual restart\<close>

text \<open>
  Claim C2. A close signal processed while \<^verbatim>\<open>isManualRestart\<close> is set takes the
  logged-out branch: the status becomes \<open>LoggedOut\<close>, the flag is reset and no timer is
  armed. \<^verbatim>\<open>restartInstance\<close> fails with "not found" for an unknown phone; for a known
  one it sets the flag, calls \<^verbatim>\<open>close()\<close> (which closes the web socket when there is
  a socket, and never logs out), waits the 1000 ms settle delay, during which the close
  signal is processed as above, and then calls \<^verbatim>\<open>initialize()\<close>: the only timer of
  the whole trace is the settle delay, and no logout is in it.
\<close>

theorem C2_manual_restart:
  "(isManualRestart inst \<and> connection u = Some Close \<longrightarrow>
      connectionStatus (fst (connectionUpdate w u inst)) = LoggedOut
      \<and> \<not> isManualRestart (fst (connectionUpdate w u inst))
      \<and> timersOf (snd (connectionUpdate w u inst)) = [])
   \<and> (instances p = None \<longrightarrow>
        restartInstance w signals out instances p = (Inl (NotFound p), instances, []))
   \<and> (instances p = Some old \<and> connection u = Some Close \<longrightarrow>
        (let closed = closeInstance w (old\<lparr>isManualRestart := True\<rparr>);
             signalled = connectionUpdate w u (fst closed);
             again = initialize out (fst signalled)
         in restartInstance w [u] out instances p =
              (Inr ''Instance restarted successfully'', instances(p \<mapsto> fst again),
               snd closed @ [SetTimeout 1000 Settle] @ snd signalled @ snd again)
            \<and> isManualRestart (fst closed)
            \<and> snd closed =
                (if sock old
                 then WsClose # (case wsClose w of None \<Rightarrow> []
                                 | Some m \<Rightarrow> [LogError CloseFailed m])
                 else [])
            \<and> SockLogout \<notin> set (snd closed @ [SetTimeout 1000 Settle] @ snd signalled
                                   @ snd again)
            \<and> timersOf (snd closed @ [SetTimeout 1000 Settle] @ snd signalled @ snd again)
                = [(1000, Settle)]
            \<and> connectionStatus (fst signalled) = LoggedOut
            \<and> \<not> isManualRestart (fst again)))"
proof -
  have handler: "connectionStatus (fst (connectionUpdate w u inst)) = LoggedOut
      \<and> \<not> isManualRestart (fst (connectionUpdate w u inst))
      \<and> timersOf (snd (connectionUpdate w u inst)) = []"
    if "isManualRestart inst" "connection u = Some Close"
    using flagged_close [OF that] by simp
  have unknown: "restartInstance w signals out instances p = (Inl (NotFound p), instances, [])"
    if "instances p = None"
    using that by (simp add: restartInstance_def)
  have restart:
    "(let closed = closeInstance w (old\<lparr>isManualRestart := True\<rparr>);
          signalled = connectionUpdate w u (fst closed);
          again = initialize out (fst signalled)
      in restartInstance w [u] out instances p =
           (Inr ''Instance restarted successfully'', instances(p \<mapsto> fst again),
            snd closed @ [SetTimeout 1000 Settle] @ snd signalled @ snd again)
         \<and> isManualRestart (fst closed)
         \<and> snd closed =
             (if sock old
              then WsClose # (case wsClose w of None \<Rightarrow> []
                              | Some m \<Rightarrow> [LogError CloseFailed m])
              else [])
         \<and> SockLogout \<notin> set (snd closed @ [SetTimeout 1000 Settle] @ snd signalled
                                @ snd again)
         \<and> timersOf (snd closed @ [SetTimeout 1000 Settle] @ snd signalled @ snd again)
             = [(1000, Settle)]
         \<and> connectionStatus (fst signalled) = LoggedOut
         \<and> \<not> isManualRestart (fst again))"
    if found: "instances p = Some old" and c: "connection u = Some Close"
  proof -
    let ?closed = "closeInstance w (old\<lparr>isManualRestart := True\<rparr>)"
    let ?signalled = "connectionUpdate w u (fst ?closed)"
    let ?again = "initialize out (fst ?signalled)"
    have fl: "isManualRestart (fst ?closed)"
      by (simp add: closeInstance_def)
    have r: "restartInstance w [u] out instances p =
        (Inr ''Instance restarted successfully'', instances(p \<mapsto> fst ?again),
         snd ?closed @ [SetTimeout 1000 Settle] @ snd ?signalled @ snd ?again)"
      using found by (simp add: restartInstance_def split_beta Let_def)
    have cl: "snd ?closed =
        (if sock old
         then WsClose # (case wsClose w of None \<Rightarrow> [] | Some m \<Rightarrow> [LogError CloseFailed m])
         else [])"
      by (simp add: closeInstance_def)
    have lo: "SockLogout \<notin> set (snd ?closed @ [SetTimeout 1000 Settle] @ snd ?signalled
        @ snd ?again)"
      by (simp add: logout_closeInstance logout_connectionUpdate logout_initialize)
    have ti: "timersOf (snd ?closed @ [SetTimeout 1000 Settle] @ snd ?signalled @ snd ?again)
        = [(1000, Settle)]"
      using flagged_close(3) [OF fl c, of w]
      by (simp add: timersOf_append timersOf_closeInstance timersOf_initialize)
    have st: "connectionStatus (fst ?signalled) = LoggedOut"
      using flagged_close(1) [OF fl c] .
    have fa: "\<not> isManualRestart (fst ?again)"
      using flagged_close(2) [OF fl c, of w] by (simp add: initialize_fields)
    from r fl cl lo ti st fa show ?thesis
      by (simp only: Let_def) blast
  qed
  from handler unknown restart show ?thesis by blast
qed

theorem C2_manual_restart_witness:
  "isManualRestart (liveInstance\<lparr>isManualRestart := True\<rparr>)
   \<and> connection lostConnection = Some Close
   \<and> connectionStatus (fst (connectionUpdate twoHooks lostConnection
         (liveInstance\<lparr>isManualRestart := True\<rparr>))) = LoggedOut
   \<and> \<not> isManualRestart (fst (connectionUpdate twoHooks lostConnection
         (liveInstance\<lparr>isManualRestart := True\<rparr>)))
   \<and> timersOf (snd (connectionUpdate twoHooks lostConnection
         (liveInstance\<lparr>isManualRestart := True\<rparr>))) = []
   \<and> (Map.empty :: string \<rightharpoonup> waInstance) ''6281234567'' = None
   \<and> fst (restartInstance twoHooks [] InitOk Map.empty ''6281234567'')
       = Inl (NotFound ''6281234567'')
   \<and> [''6281234567'' \<mapsto> liveInstance] ''6281234567'' = Some liveInstance
   \<and> fst (restartInstance twoHooks [lostConnection] InitOk
         [''6281234567'' \<mapsto> liveInstance] ''6281234567'')
       = Inr ''Instance restarted successfully''
   \<and> timersOf (snd (snd (restartInstance twoHooks [lostConnection] InitOk
         [''6281234567'' \<mapsto> liveInstance] ''6281234567''))) = [(1000, Settle)]
   \<and> SockLogout \<notin> set (snd (snd (restartInstance twoHooks [lostConnection] InitOk
         [''6281234567'' \<mapsto> liveInstance] ''6281234567'')))
   \<and> take 1 (snd (snd (restartInstance twoHooks [lostConnection] InitOk
         [''6281234567'' \<mapsto> liveInstance] ''6281234567''))) = [WsClose]"
proof -
  let ?p = "''6281234567''"
  let ?flagged = "liveInstance\<lparr>isManualRestart := True\<rparr>"
  have h: "isManualRestart ?flagged" "connection lostConnection = Some Close"
    by (simp_all add: lostConnection_def)
  have e: "(Map.empty :: string \<rightharpoonup> waInstance) ?p = None"
    by simp
  have s: "[?p \<mapsto> liveInstance] ?p = Some liveInstance" "sock liveInstance"
    by (simp_all add: liveInstance_def)
  let ?closed = "closeInstance twoHooks ?flagged"
  let ?signalled = "connectionUpdate twoHooks lostConnection (fst ?closed)"
  let ?again = "initialize InitOk (fst ?signalled)"
  let ?es = "snd ?closed @ [SetTimeout 1000 Settle] @ snd ?signalled @ snd ?again"
  have handler: "connectionStatus (fst (connectionUpdate twoHooks lostConnection ?flagged))
      = LoggedOut
    \<and> \<not> isManualRestart (fst (connectionUpdate twoHooks lostConnection ?flagged))
    \<and> timersOf (snd (connectionUpdate twoHooks lostConnection ?flagged)) = []"
    using C2_manual_restart [of ?flagged lostConnection twoHooks Map.empty ?p "[]" InitOk
        liveInstance] h
    by blast
  have unknown: "restartInstance twoHooks [] InitOk Map.empty ?p
      = (Inl (NotFound ?p), Map.empty, [])"
    using C2_manual_restart [of ?flagged lostConnection twoHooks Map.empty ?p "[]" InitOk
        liveInstance] e
    by blast
  have restart: "restartInstance twoHooks [lostConnection] InitOk [?p \<mapsto> liveInstance] ?p
        = (Inr ''Instance restarted successfully'',
           [?p \<mapsto> liveInstance](?p \<mapsto> fst ?again), ?es)
      \<and> isManualRestart (fst ?closed)
      \<and> snd ?closed =
          (if sock liveInstance
           then WsClose # (case wsClose twoHooks of None \<Rightarrow> []
                           | Some m \<Rightarrow> [LogError CloseFailed m])
           else [])
      \<and> SockLogout \<notin> set ?es
      \<and> timersOf ?es = [(1000, Settle)]
      \<and> connectionStatus (fst ?signalled) = LoggedOut
      \<and> \<not> isManualRestart (fst ?again)"
    using C2_manual_restart [of ?flagged lostConnection twoHooks "[?p \<mapsto> liveInstance]" ?p
        "[]" InitOk liveInstance] h(2) s(1)
    unfolding Let_def by blast
  have r1: "fst (restartInstance twoHooks [lostConnection] InitOk [?p \<mapsto> liveInstance] ?p)
      = Inr ''Instance restarted successfully''"
    and r2: "snd (snd (restartInstance twoHooks [lostConnection] InitOk
      [?p \<mapsto> liveInstance] ?p)) = ?es"
    using restart by simp_all
  have w: "take 1 ?es = [WsClose]"
    using restart s(2) by simp
  have u: "fst (restartInstance twoHooks [] InitOk Map.empty ?p) = Inl (NotFound ?p)"
    using unknown by simp
  show ?thesis
    unfolding r2 using h e s(1) handler u r1 restart w by blast
qed

subsection \<open>The payload of the logged-out event\<close>

text \<open>
  Claim C10. When a close signal is processed while \<^verbatim>\<open>isManualRestart\<close> is set, the
  handler hands exactly one \<^verbatim>\<open>logged_out\<close> payload to the webhook pipeline; its
  \<^verbatim>\<open>wasManualRestart\<close> is false and its message is "Logged out or max reconnect
  attempts reached", because the flag is reset before the payload reads it. The payload
  is the one that an exhausted reconnect ceiling produces for the same signal.
\<close>

theorem C10_logged_out_payload:
  "(isManualRestart inst \<and> connection u = Some Close \<longrightarrow>
      loggedOutPayloads (snd (connectionUpdate w u inst)) =
        [(connPayload ''logged_out'' ''Logged out or max reconnect attempts reached'')
           \<lparr>cd_disconnectReason := statusCode u, cd_wasManualRestart := Some False\<rparr>])
   \<and> (isManualRestart inst \<and> connection u = Some Close
        \<and> \<not> isManualRestart exhausted
        \<and> \<not> reconnectAttempts exhausted < maxReconnectAttempts exhausted \<longrightarrow>
        loggedOutPayloads (snd (connectionUpdate w u inst)) =
        loggedOutPayloads (snd (connectionUpdate w u exhausted)))"
proof -
  have manual: "loggedOutPayloads (snd (connectionUpdate w u inst)) =
        [(connPayload ''logged_out'' ''Logged out or max reconnect attempts reached'')
           \<lparr>cd_disconnectReason := statusCode u, cd_wasManualRestart := Some False\<rparr>]"
    if "isManualRestart inst" "connection u = Some Close"
    using that by (simp add: loggedOutPayloads_connectionUpdate)
  have same: "loggedOutPayloads (snd (connectionUpdate w u inst)) =
        loggedOutPayloads (snd (connectionUpdate w u exhausted))"
    if "isManualRestart inst" "connection u = Some Close"
      "\<not> reconnectAttempts exhausted < maxReconnectAttempts exhausted"
    using that by (simp add: loggedOutPayloads_connectionUpdate)
  from manual same show ?thesis by blast
qed

theorem C10_logged_out_payload_witness:
  "isManualRestart (liveInstance\<lparr>isManualRestart := True\<rparr>)
   \<and> connection lostConnection = Some Close
   \<and> \<not> isManualRestart (liveInstance\<lparr>reconnectAttempts := 5\<rparr>)
   \<and> \<not> reconnectAttempts (liveInstance\<lparr>reconnectAttempts := 5\<rparr>)
         < maxReconnectAttempts (liveInstance\<lparr>reconnectAttempts := 5\<rparr>)
   \<and> map cd_wasManualRestart (loggedOutPayloads (snd (connectionUpdate twoHooks lostConnection
        (liveInstance\<lparr>isManualRestart := True\<rparr>)))) = [Some False]
   \<and> map cd_message (loggedOutPayloads (snd (connectionUpdate twoHooks lostConnection
        (liveInstance\<lparr>isManualRestart := True\<rparr>))))
       = [''Logged out or max reconnect attempts reached'']
   \<and> loggedOutPayloads (snd (connectionUpdate twoHooks lostConnection
        (liveInstance\<lparr>isManualRestart := True\<rparr>)))
       = loggedOutPayloads (snd (connectionUpdate twoHooks lostConnection
        (liveInstance\<lparr>reconnectAttempts := 5\<rparr>)))"
proof -
  have h: "isManualRestart (liveInstance\<lparr>isManualRestart := True\<rparr>)"
    "connection lostConnection = Some Close"
    "\<not> isManualRestart (liveInstance\<lparr>reconnectAttempts := 5\<rparr>)"
    "\<not> reconnectAttempts (liveInstance\<lparr>reconnectAttempts := 5\<rparr>)
         < maxReconnectAttempts (liveInstance\<lparr>reconnectAttempts := 5\<rparr>)"
    by (simp_all add: lostConnection_def liveInstance_def newInstance_def)
  let ?flagged = "liveInstance\<lparr>isManualRestart := True\<rparr>"
  let ?exhausted = "liveInstance\<lparr>reconnectAttempts := 5\<rparr>"
  have p: "loggedOutPayloads (snd (connectionUpdate twoHooks lostConnection ?flagged)) =
      [(connPayload ''logged_out'' ''Logged out or max reconnect attempts reached'')
         \<lparr>cd_disconnectReason := statusCode lostConnection,
          cd_wasManualRestart := Some False\<rparr>]"
    and q: "loggedOutPayloads (snd (connectionUpdate twoHooks lostConnection ?flagged)) =
      loggedOutPayloads (snd (connectionUpdate twoHooks lostConnection ?exhausted))"
    using C10_logged_out_payload [of ?flagged lostConnection twoHooks ?exhausted] h
    by blast+
  have m: "map cd_wasManualRestart
      (loggedOutPayloads (snd (connectionUpdate twoHooks lostConnection ?flagged)))
      = [Some False]"
    and t: "map cd_message
      (loggedOutPayloads (snd (connectionUpdate twoHooks lostConnection ?flagged)))
      = [''Logged out or max reconnect attempts reached'']"
    unfolding p by (simp_all add: connPayload_def)
  from h m t q show ?thesis by blast
qed

section \<open>Properties of the webhook delivery\<close>

lemma historiesOf_append: "historiesOf (a @ b) = historiesOf a @ historiesOf b"
  by (induction a rule: historiesOf.induct) simp_all

lemma postsOf_append: "postsOf (a @ b) = postsOf a @ postsOf b"
  by (induction a rule: postsOf.induct) simp_all


lemma saveFailures_append: "saveFailures (a @ b) = saveFailures a @ saveFailures b"
  by (induction a rule: saveFailures.induct) simp_all

lemma deliver_histories:
  "historiesOf (deliver w ev d wh) = [deliveryRecord w ev d wh]"
  by (simp add: deliver_def Let_def postLog_def saveHistory_def deliveryRecord_def
      historiesOf_append split: postResult.splits option.splits)

lemma deliver_posts: "postsOf (deliver w ev d wh) = [wh_id wh]"
  by (simp add: deliver_def Let_def postLog_def saveHistory_def postsOf_append
      split: postResult.splits option.splits)


lemma deliver_saveFailures:
  "saveFailures (deliver w ev d wh) =
     (case historyCreate w (deliveryRecord w ev d wh) of
        None \<Rightarrow> []
      | Some m \<Rightarrow> [(wh_id wh, m)])"
  by (simp add: deliver_def Let_def postLog_def saveHistory_def deliveryRecord_def
      saveFailures_append split: postResult.splits option.splits)

lemma deliverAll_histories:
  "historiesOf (deliverAll w ev d whs) = map (deliveryRecord w ev d) whs"
  by (induction whs) (simp_all add: historiesOf_append deliver_histories)

lemma deliverAll_posts: "postsOf (deliverAll w ev d whs) = map wh_id whs"
  by (induction whs) (simp_all add: postsOf_append deliver_posts)


lemma deliverAll_saveFailures:
  "saveFailures (deliverAll w ev d whs) =
     concat (map (\<lambda>wh. case historyCreate w (deliveryRecord w ev d wh) of
                          None \<Rightarrow> [] | Some m \<Rightarrow> [(wh_id wh, m)]) whs)"
  by (induction whs) (simp_all add: saveFailures_append deliver_saveFailures)

lemma status_success:
  "(h_status (settledHistory (pendingHistory ev d wh) r) = ''success'') = resolved r"
  by (cases r) (simp_all add: settledHistory_def pendingHistory_def Let_def)

lemma status_timeout:
  "(h_status (settledHistory (pendingHistory ev d wh) r) = ''timeout'') = timedOut r"
  by (cases r) (simp_all add: settledHistory_def pendingHistory_def Let_def)

lemma status_failed:
  "(h_status (settledHistory (pendingHistory ev d wh) r) = ''failed'') =
     (\<not> resolved r \<and> \<not> timedOut r)"
  by (cases r) (simp_all add: settledHistory_def pendingHistory_def Let_def)

lemma failed_response:
  "\<not> resolved r \<Longrightarrow> \<not> timedOut r \<Longrightarrow>
   h_response (settledHistory (pendingHistory ev d wh) r) = rejectedResponse r
   \<and> h_httpStatusCode (settledHistory (pendingHistory ev d wh) r)
       = map_option rs_status (rejectedResponse r)"
  by (cases r) (simp_all add: settledHistory_def pendingHistory_def Let_def)

lemma deliveryRecord_id: "h_webhookId (deliveryRecord w ev d wh) = wh_id wh"
  by (cases "axiosPost w wh ev")
    (simp_all add: deliveryRecord_def settledHistory_def pendingHistory_def Let_def)



subsection \<open>Order of the deliveries\<close>




subsection \<open>Outcome of a delivery\<close>

text \<open>
  Claim C4. The status of a delivery record is \<^verbatim>\<open>success\<close> exactly when the POST
  resolved (a 2xx response), \<^verbatim>\<open>timeout\<close> exactly when it was rejected with axios's
  timeout code, and \<^verbatim>\<open>failed\<close> exactly for every other rejection, in which case
  the record carries the response and status code of the rejection when there is one.
  A trigger hands exactly one record per enabled webhook to the history service, and
  issues a POST to every webhook whether or not saving the earlier records failed; every
  failed save is logged.
\<close>

theorem C4_delivery_outcome:
  "(h_status (deliveryRecord w ev d wh) = ''success'') = resolved (axiosPost w wh ev)
   \<and> (h_status (deliveryRecord w ev d wh) = ''timeout'') = timedOut (axiosPost w wh ev)
   \<and> (h_status (deliveryRecord w ev d wh) = ''failed'')
       = (\<not> resolved (axiosPost w wh ev) \<and> \<not> timedOut (axiosPost w wh ev))
   \<and> (\<not> resolved (axiosPost w wh ev) \<and> \<not> timedOut (axiosPost w wh ev) \<longrightarrow>
        h_response (deliveryRecord w ev d wh) = rejectedResponse (axiosPost w wh ev)
        \<and> h_httpStatusCode (deliveryRecord w ev d wh)
            = map_option rs_status (rejectedResponse (axiosPost w wh ev)))
   \<and> (getEnabledWebhooks w ev = Inr webhooks \<longrightarrow>
        historiesOf (triggerWebhooks w ev d) = map (deliveryRecord w ev d) webhooks
        \<and> postsOf (triggerWebhooks w ev d) = map wh_id webhooks
        \<and> saveFailures (triggerWebhooks w ev d) =
            concat (map (\<lambda>wh. case historyCreate w (deliveryRecord w ev d wh) of
                                 None \<Rightarrow> [] | Some m \<Rightarrow> [(wh_id wh, m)]) webhooks))"
proof -
  have s: "(h_status (deliveryRecord w ev d wh) = ''success'') = resolved (axiosPost w wh ev)"
    unfolding deliveryRecord_def by (rule status_success)
  have t: "(h_status (deliveryRecord w ev d wh) = ''timeout'') = timedOut (axiosPost w wh ev)"
    unfolding deliveryRecord_def by (rule status_timeout)
  have f: "(h_status (deliveryRecord w ev d wh) = ''failed'')
       = (\<not> resolved (axiosPost w wh ev) \<and> \<not> timedOut (axiosPost w wh ev))"
    unfolding deliveryRecord_def by (rule status_failed)
  have r: "h_response (deliveryRecord w ev d wh) = rejectedResponse (axiosPost w wh ev)
        \<and> h_httpStatusCode (deliveryRecord w ev d wh)
            = map_option rs_status (rejectedResponse (axiosPost w wh ev))"
    if "\<not> resolved (axiosPost w wh ev)" "\<not> timedOut (axiosPost w wh ev)"
    unfolding deliveryRecord_def using that by (rule failed_response)
  have l: "historiesOf (triggerWebhooks w ev d) = map (deliveryRecord w ev d) webhooks
        \<and> postsOf (triggerWebhooks w ev d) = map wh_id webhooks
        \<and> saveFailures (triggerWebhooks w ev d) =
            concat (map (\<lambda>wh. case historyCreate w (deliveryRecord w ev d wh) of
                                 None \<Rightarrow> [] | Some m \<Rightarrow> [(wh_id wh, m)]) webhooks)"
    if "getEnabledWebhooks w ev = Inr webhooks"
    using that
    by (simp add: triggerWebhooks_def deliverAll_histories deliverAll_posts
        deliverAll_saveFailures)
  from s t f r l show ?thesis by blast
qed

theorem C4_delivery_outcome_witness:
  "\<not> resolved (axiosPost brokenWorld firstHook ''message.received'')
   \<and> \<not> timedOut (axiosPost brokenWorld firstHook ''message.received'')
   \<and> h_status (deliveryRecord brokenWorld ''message.received'' connectedData firstHook)
       = ''failed''
   \<and> h_httpStatusCode (deliveryRecord brokenWorld ''message.received'' connectedData firstHook)
       = Some 500
   \<and> getEnabledWebhooks brokenWorld ''message.received'' = Inr [firstHook, secondHook]
   \<and> map h_status (historiesOf (triggerWebhooks brokenWorld ''message.received'' connectedData))
       = [''failed'', ''success'']
   \<and> postsOf (triggerWebhooks brokenWorld ''message.received'' connectedData) = [1, 2]
   \<and> saveFailures (triggerWebhooks brokenWorld ''message.received'' connectedData)
       = [(1, ''connection refused'')]"
proof -
  let ?ev = "''message.received''"
  have p1: "axiosPost brokenWorld firstHook ?ev =
      Rejected \<lparr>ae_code = Some ''ERR_BAD_RESPONSE'',
                 ae_response = Some \<lparr>rs_status = 500,
                   rs_statusText = ''Internal Server Error'', rs_data = ''down''\<rparr>,
                 ae_message = ''Request failed with status code 500''\<rparr> 40"
    by (simp add: brokenWorld_def firstHook_def)
  have p2: "axiosPost brokenWorld secondHook ?ev =
      Resolved \<lparr>rs_status = 200, rs_statusText = ''OK'', rs_data = []\<rparr> 12"
    by (simp add: brokenWorld_def secondHook_def)
  have h1: "\<not> resolved (axiosPost brokenWorld firstHook ?ev)"
    "\<not> timedOut (axiosPost brokenWorld firstHook ?ev)"
    unfolding p1 by simp_all
  have h2: "resolved (axiosPost brokenWorld secondHook ?ev)"
    unfolding p2 by simp
  have g: "getEnabledWebhooks brokenWorld ?ev = Inr [firstHook, secondHook]"
    by (simp add: brokenWorld_def twoHooks_def firstHook_def secondHook_def)
  note first = C4_delivery_outcome [of brokenWorld ?ev connectedData firstHook
      "[firstHook, secondHook]"]
  note second = C4_delivery_outcome [of brokenWorld ?ev connectedData secondHook
      "[firstHook, secondHook]"]
  have s1: "h_status (deliveryRecord brokenWorld ?ev connectedData firstHook) = ''failed''"
    using first h1 by blast
  have s2: "h_status (deliveryRecord brokenWorld ?ev connectedData secondHook) = ''success''"
    using second h2 by blast
  have c: "h_httpStatusCode (deliveryRecord brokenWorld ?ev connectedData firstHook) = Some 500"
    using first h1 by (simp add: p1)
  have hs: "historiesOf (triggerWebhooks brokenWorld ?ev connectedData)
      = map (deliveryRecord brokenWorld ?ev connectedData) [firstHook, secondHook]"
    and ps: "postsOf (triggerWebhooks brokenWorld ?ev connectedData)
      = map wh_id [firstHook, secondHook]"
    and fs: "saveFailures (triggerWebhooks brokenWorld ?ev connectedData) =
      concat (map (\<lambda>wh. case historyCreate brokenWorld
                              (deliveryRecord brokenWorld ?ev connectedData wh) of
                           None \<Rightarrow> [] | Some m \<Rightarrow> [(wh_id wh, m)]) [firstHook, secondHook])"
    using first g by blast+
  have hc: "historyCreate brokenWorld = (\<lambda>h. if h_webhookId h = 1 then Some ''connection refused'' else None)"
    by (simp add: brokenWorld_def)
  have m: "map h_status (historiesOf (triggerWebhooks brokenWorld ?ev connectedData))
      = [''failed'', ''success'']"
    unfolding hs using s1 s2 by simp
  have p: "postsOf (triggerWebhooks brokenWorld ?ev connectedData) = [1, 2]"
    unfolding ps by (simp add: firstHook_def secondHook_def)
  have f: "saveFailures (triggerWebhooks brokenWorld ?ev connectedData)
      = [(1, ''connection refused'')]"
    unfolding fs hc by (simp add: deliveryRecord_id firstHook_def secondHook_def)
  from h1 s1 c g m p f show ?thesis by blast
qed

section \<open>Properties of the plugin dispatch\<close>

subsection \<open>Every plugin has a config\<close>

lemma map_of_mapSet: "map_of (mapSet kvs k v) = (map_of kvs)(k \<mapsto> v)"
  by (induction kvs k v rule: mapSet.induct) auto

lemma keys_mapSet: "fst ` set (mapSet kvs k v) = insert k (fst ` set kvs)"
  by (induction kvs k v rule: mapSet.induct) auto

lemma mapHas_mapSet: "mapHas (mapSet kvs k v) k' = (k' = k \<or> mapHas kvs k')"
  by (simp add: mapHas_def map_of_mapSet)

lemma wellFormed_iff:
  "wellFormed pm = (\<forall>n \<in> fst ` set (plugins pm). mapHas (pluginConfigs pm) n)"
  by (auto simp add: wellFormed_def list_all_iff)

lemma wellFormed_new: "wellFormed newPluginManager"
  by (simp add: wellFormed_def newPluginManager_def)

lemma wellFormed_loadPlugins: "wellFormed pm \<Longrightarrow> wellFormed (loadPlugins files pm)"
proof (induction files pm rule: loadPlugins.induct)
  case (3 pluginName plugin c files pm)
  have "wellFormed
      (pm\<lparr>plugins := mapSet (plugins pm) pluginName plugin,
          pluginConfigs :=
            mapSet (pluginConfigs pm) pluginName
              (case c of Some config \<Rightarrow> config | None \<Rightarrow> \<lparr>enabled = True\<rparr>)\<rparr>)"
    using "3.prems" by (auto simp add: wellFormed_iff keys_mapSet mapHas_mapSet)
  then show ?case
    using "3.IH" by simp
qed simp_all

lemma wellFormed_setEnabled: "wellFormed pm \<Longrightarrow> wellFormed (fst (setEnabled b n pm))"
  by (auto simp add: setEnabled_def wellFormed_iff mapHas_mapSet)

lemma wellFormed_reloadPlugins: "wellFormed (reloadPlugins files pm)"
proof -
  have "wellFormed (pm\<lparr>plugins := []\<rparr>)"
    by (simp add: wellFormed_def)
  then show ?thesis
    unfolding reloadPlugins_def by (rule wellFormed_loadPlugins)
qed

subsection \<open>The dispatch\<close>


lemma pluginCalls_append: "pluginCalls (a @ b) = pluginCalls a @ pluginCalls b"
  by (induction a rule: pluginCalls.induct) simp_all










section \<open>Properties of the inbound pipeline\<close>

lemma messageCreates_append: "messageCreates (a @ b) = messageCreates a @ messageCreates b"
  by (induction a rule: messageCreates.induct) simp_all

lemma triggersOf_append: "triggersOf (a @ b) = triggersOf a @ triggersOf b"
  by (induction a rule: triggersOf.induct) simp_all





lemma deliverAll_parts:
  "messageCreates (deliverAll w ev d whs) = []"
  "pluginCalls (deliverAll w ev d whs) = []"
  "triggersOf (deliverAll w ev d whs) = []"
  by (induction whs)
    (simp_all add: deliver_def Let_def postLog_def saveHistory_def messageCreates_append
      pluginCalls_append triggersOf_append split: postResult.splits option.splits)

lemma triggerWebhooks_parts:
  "messageCreates (triggerWebhooks w ev d) = []"
  "pluginCalls (triggerWebhooks w ev d) = []"
  "triggersOf (triggerWebhooks w ev d) = [(ev, d)]"
  by (simp_all add: triggerWebhooks_def deliverAll_parts split: sum.splits)




section \<open>Properties of the send operations\<close>

lemma sendsOf_append: "sendsOf (a @ b) = sendsOf a @ sendsOf b"
  by (induction a rule: sendsOf.induct) simp_all

lemma messageStore_none: "messageCreates es = [] \<Longrightarrow> messageStore w es store = store"
  by (induction w es store rule: messageStore.induct) simp_all

text \<open>
  Claim C8. On an instance that is not connected, \<^verbatim>\<open>sendMessage\<close>,
  \<^verbatim>\<open>sendGroupMessage\<close> and \<^verbatim>\<open>sendMediaMessage\<close> raise the not-connected error
  to the caller; the trace holds the error log and the instance log entry only, so
  nothing is handed to the socket and the message store is left as it was.
\<close>

theorem C8_send_requires_connection:
  "\<not> isConnected inst \<longrightarrow>
     sendMessage w inst phoneNumber messageText =
       (Inl (NotConnected (phone inst)),
        [LogError SendFailed (errorMessage (NotConnected (phone inst))),
         InstanceLog ''error''
           (''Error sending message: '' @ errorMessage (NotConnected (phone inst)))])
     \<and> sendGroupMessage w inst groupId messageText =
       (Inl (NotConnected (phone inst)),
        [LogError SendGroupFailed (errorMessage (NotConnected (phone inst))),
         InstanceLog ''error''
           (''Error sending group message: '' @ errorMessage (NotConnected (phone inst)))])
     \<and> sendMediaMessage w inst phoneNumber media =
       (Inl (NotConnected (phone inst)),
        [LogError SendMediaFailed (errorMessage (NotConnected (phone inst))),
         InstanceLog ''error''
           (''Error sending media message: '' @ errorMessage (NotConnected (phone inst)))])
     \<and> sendsOf (snd (sendMessage w inst phoneNumber messageText)) = []
     \<and> sendsOf (snd (sendGroupMessage w inst groupId messageText)) = []
     \<and> sendsOf (snd (sendMediaMessage w inst phoneNumber media)) = []
     \<and> messageStore w (snd (sendMessage w inst phoneNumber messageText)) store = store
     \<and> messageStore w (snd (sendGroupMessage w inst groupId messageText)) store = store
     \<and> messageStore w (snd (sendMediaMessage w inst phoneNumber media)) store = store"
proof
  assume n: "\<not> isConnected inst"
  have a: "sendMessage w inst phoneNumber messageText =
       (Inl (NotConnected (phone inst)),
        [LogError SendFailed (errorMessage (NotConnected (phone inst))),
         InstanceLog ''error''
           (''Error sending message: '' @ errorMessage (NotConnected (phone inst)))])"
    using n by (simp add: sendMessage_def trySendMessage_def rethrow_def)
  have b: "sendGroupMessage w inst groupId messageText =
       (Inl (NotConnected (phone inst)),
        [LogError SendGroupFailed (errorMessage (NotConnected (phone inst))),
         InstanceLog ''error''
           (''Error sending group message: '' @ errorMessage (NotConnected (phone inst)))])"
    using n by (simp add: sendGroupMessage_def trySendGroupMessage_def rethrow_def)
  have c: "sendMediaMessage w inst phoneNumber media =
       (Inl (NotConnected (phone inst)),
        [LogError SendMediaFailed (errorMessage (NotConnected (phone inst))),
         InstanceLog ''error''
           (''Error sending media message: '' @ errorMessage (NotConnected (phone inst)))])"
    using n by (simp add: sendMediaMessage_def trySendMediaMessage_def rethrow_def)
  have s: "sendsOf (snd (sendMessage w inst phoneNumber messageText)) = []"
    "sendsOf (snd (sendGroupMessage w inst groupId messageText)) = []"
    "sendsOf (snd (sendMediaMessage w inst phoneNumber media)) = []"
    unfolding a b c by simp_all
  have m: "messageStore w (snd (sendMessage w inst phoneNumber messageText)) store = store"
    "messageStore w (snd (sendGroupMessage w inst groupId messageText)) store = store"
    "messageStore w (snd (sendMediaMessage w inst phoneNumber media)) store = store"
    unfolding a b c by (simp_all add: messageStore_none)
  from a b c s m show
    "sendMessage w inst phoneNumber messageText =
       (Inl (NotConnected (phone inst)),
        [LogError SendFailed (errorMessage (NotConnected (phone inst))),
         InstanceLog ''error''
           (''Error sending message: '' @ errorMessage (NotConnected (phone inst)))])
     \<and> sendGroupMessage w inst groupId messageText =
       (Inl (NotConnected (phone inst)),
        [LogError SendGroupFailed (errorMessage (NotConnected (phone inst))),
         InstanceLog ''error''
           (''Error sending group message: '' @ errorMessage (NotConnected (phone inst)))])
     \<and> sendMediaMessage w inst phoneNumber media =
       (Inl (NotConnected (phone inst)),
        [LogError SendMediaFailed (errorMessage (NotConnected (phone inst))),
         InstanceLog ''error''
           (''Error sending media message: '' @ errorMessage (NotConnected (phone inst)))])
     \<and> sendsOf (snd (sendMessage w inst phoneNumber messageText)) = []
     \<and> sendsOf (snd (sendGroupMessage w inst groupId messageText)) = []
     \<and> sendsOf (snd (sendMediaMessage w inst phoneNumber media)) = []
     \<and> messageStore w (snd (sendMessage w inst phoneNumber messageText)) store = store
     \<and> messageStore w (snd (sendGroupMessage w inst groupId messageText)) store = store
     \<and> messageStore w (snd (sendMediaMessage w inst phoneNumber media)) store = store"
    by blast
qed

theorem C8_send_requires_connection_witness:
  "\<not> isConnected (newInstance ''6281234567'')
   \<and> fst (sendMessage twoHooks (newInstance ''6281234567'') ''081234567'' ''hi'')
       = Inl (NotConnected ''6281234567'')
   \<and> fst (sendGroupMessage twoHooks (newInstance ''6281234567'') ''12036@g.us'' ''hi'')
       = Inl (NotConnected ''6281234567'')
   \<and> fst (sendMediaMessage twoHooks (newInstance ''6281234567'') ''081234567'' photo)
       = Inl (NotConnected ''6281234567'')
   \<and> sendsOf (snd (sendMessage twoHooks (newInstance ''6281234567'') ''081234567'' ''hi'')) = []
   \<and> messageStore twoHooks
        (snd (sendMessage twoHooks (newInstance ''6281234567'') ''081234567'' ''hi'')) [] = []
   \<and> fst (sendMessage twoHooks liveInstance ''081234567'' ''hi'')
       = Inr \<lparr>sr_success = True, sr_message = ''Message sent successfully'',
               sr_messageId = ''3EB0''\<rparr>
   \<and> map md_to (messageStore twoHooks
        (snd (sendMessage twoHooks liveInstance ''081234567'' ''hi'')) []) = [''6281234567'']"
proof -
  let ?new = "newInstance ''6281234567''"
  have n: "\<not> isConnected ?new" and p: "phone ?new = ''6281234567''"
    by (simp_all add: newInstance_def)
  note T = C8_send_requires_connection [of ?new twoHooks "''081234567''" "''hi''"
      "''12036@g.us''" photo "[]"]
  have a: "fst (sendMessage twoHooks ?new ''081234567'' ''hi'') = Inl (NotConnected ''6281234567'')"
    and b: "fst (sendGroupMessage twoHooks ?new ''12036@g.us'' ''hi'')
      = Inl (NotConnected ''6281234567'')"
    and c: "fst (sendMediaMessage twoHooks ?new ''081234567'' photo)
      = Inl (NotConnected ''6281234567'')"
    using T n by (simp_all add: p)
  have s: "sendsOf (snd (sendMessage twoHooks ?new ''081234567'' ''hi'')) = []"
    and m: "messageStore twoHooks (snd (sendMessage twoHooks ?new ''081234567'' ''hi'')) [] = []"
    using T n by blast+
  have f: "formattedNumber ''081234567'' = ''6281234567''"
    by (simp add: formattedNumber_def Let_def startsWith_def isDigit_def)
  have live: "isConnected liveInstance" "phone liveInstance = ''6281234567''"
    by (simp_all add: liveInstance_def newInstance_def)
  have w: "sockSendMessage twoHooks = (\<lambda>jid c. Inr ''3EB0'')"
    "messageCreate twoHooks = (\<lambda>m. None)"
    by (simp_all add: twoHooks_def)
  have ok: "sendMessage twoHooks liveInstance ''081234567'' ''hi'' =
      (Inr \<lparr>sr_success = True, sr_message = ''Message sent successfully'',
             sr_messageId = ''3EB0''\<rparr>,
       [SockSend ''6281234567@s.whatsapp.net'' (TextContent (''hi'' @ watermark twoHooks)),
        MessageCreate ((outgoingData liveInstance ''6281234567'' ''text'' ''hi'')
          \<lparr>md_messageId := ''3EB0''\<rparr>)]
       @ triggerWebhooks twoHooks ''message.sent''
           (SentData ((outgoingData liveInstance ''6281234567'' ''text'' ''hi'')
              \<lparr>md_messageId := ''3EB0''\<rparr>) ''6281234567'')
       @ [InstanceLog ''info'' ''Message sent: hi''])"
    by (simp add: sendMessage_def trySendMessage_def rethrow_def afterSend_def Let_def f live w)
  have r: "fst (sendMessage twoHooks liveInstance ''081234567'' ''hi'')
       = Inr \<lparr>sr_success = True, sr_message = ''Message sent successfully'',
               sr_messageId = ''3EB0''\<rparr>"
    unfolding ok by simp
  have st: "messageStore twoHooks (snd (sendMessage twoHooks liveInstance ''081234567'' ''hi'')) []
      = [(outgoingData liveInstance ''6281234567'' ''text'' ''hi'')\<lparr>md_messageId := ''3EB0''\<rparr>]"
    unfolding ok
    by (simp add: w messageStore_none messageCreates_append triggerWebhooks_parts)
  have t: "map md_to (messageStore twoHooks
        (snd (sendMessage twoHooks liveInstance ''081234567'' ''hi'')) []) = [''6281234567'']"
    unfolding st by (simp add: outgoingData_def)
  from n a b c s m r t show ?thesis by blast
qed

section \<open>Properties of the welcome batch\<close>

subsection \<open>The invariant of the batch state\<close>

text \<open>
  In every state the flushes that are armed or under way are pairwise different keys, they
  are exactly the keys whose batch carries the flag, and a key without the flag has no
  pending participants.
\<close>

lemma inv_new: "notifierInv newNotifier"
  by (simp add: notifierInv_def newNotifier_def flushes_def scheduledIn_def fresh_def)

lemma inv_scheduleWelcome:
  assumes "notifierInv s"
  shows "notifierInv (scheduleWelcome k ps s)"
proof (cases "scheduledIn s k")
  case True
  then obtain b where b: "groupParticipants s k = Some b" "scheduled b"
    by (auto simp add: scheduledIn_def split: option.splits)
  have "scheduleWelcome k ps s =
      s\<lparr>groupParticipants := (groupParticipants s)(k \<mapsto> b\<lparr>items := items b @ ps\<rparr>)\<rparr>"
    using b by (simp add: scheduleWelcome_def Let_def)
  then show ?thesis
    using assms b by (auto simp add: notifierInv_def flushes_def scheduledIn_def fresh_def)
next
  case False
  then have f: "fresh s k" and n: "k \<notin> set (flushes s)"
    using assms by (auto simp add: notifierInv_def)
  have "scheduleWelcome k ps s =
      s\<lparr>groupParticipants := (groupParticipants s)(k \<mapsto> \<lparr>items = ps, scheduled = True\<rparr>),
        timers := timers s @ [k]\<rparr>"
    using f by (auto simp add: scheduleWelcome_def Let_def fresh_def emptyBatch_def)
  then show ?thesis
    using assms n by (auto simp add: notifierInv_def flushes_def scheduledIn_def fresh_def)
qed

lemma inv_flushStart:
  assumes "notifierInv s" "flushStart k s = Some s'"
  shows "notifierInv s'"
proof -
  have k: "k \<in> set (timers s)"
    and s': "s' = s\<lparr>timers := remove1 k (timers s), awaitingMetadata := awaitingMetadata s @ [k]\<rparr>"
    using assms(2) by (auto simp add: flushStart_def split: if_splits)
  have d: "distinct (timers s @ awaitingMetadata s @ awaitingSend s)"
    using assms(1) by (simp add: notifierInv_def flushes_def)
  have d': "distinct (flushes s')"
    using d k unfolding s' flushes_def by auto
  have e: "set (flushes s') = set (flushes s)"
    using d k unfolding s' flushes_def by auto
  show ?thesis
    using assms(1) d' e unfolding notifierInv_def
    by (simp add: s' scheduledIn_def fresh_def)
qed

lemma inv_clear:
  assumes "notifierInv s" "k \<in> set xs" "flushes s = ys @ xs @ zs"
    "flushes s' = ys @ remove1 k xs @ zs"
    "groupParticipants s' = (groupParticipants s)(k \<mapsto> emptyBatch)"
  shows "notifierInv s'"
proof -
  have d: "distinct (ys @ xs @ zs)"
    using assms(1,3) by (simp add: notifierInv_def)
  have d': "distinct (flushes s')"
    using d unfolding assms(4) by auto
  have e: "set (flushes s') = set (flushes s) - {k}"
    using d assms(2) unfolding assms(3,4) by auto
  have sch: "scheduledIn s' g = (g \<noteq> k \<and> scheduledIn s g)" for g
    by (simp add: scheduledIn_def assms(5) emptyBatch_def)
  have fr: "fresh s' g = (g = k \<or> fresh s g)" for g
    by (simp add: fresh_def assms(5))
  show ?thesis
    using assms(1) d' unfolding notifierInv_def e sch fr by auto
qed

lemma inv_flushAfterMetadata:
  assumes "notifierInv s" "flushAfterMetadata k a s = Some s'"
  shows "notifierInv s'"
proof -
  have k: "k \<in> set (awaitingMetadata s)"
    using assms(2) by (auto simp add: flushAfterMetadata_def split: if_splits)
  let ?s1 = "s\<lparr>awaitingMetadata := remove1 k (awaitingMetadata s)\<rparr>"
  have fl: "flushes s = timers s @ awaitingMetadata s @ awaitingSend s"
    by (simp add: flushes_def)
  have cleared: "notifierInv (clearBatch k ?s1)"
    by (rule inv_clear [OF assms(1) k fl]) (simp_all add: flushes_def clearBatch_def)
  show ?thesis
  proof (cases "a = IsAdmin \<and> groupParticipants s k \<noteq> None")
    case True
    then obtain b where b: "groupParticipants s k = Some b"
      by auto
    have s': "s' = ?s1\<lparr>sent := sent s @ [(k, items b)], awaitingSend := awaitingSend s @ [k]\<rparr>"
      using assms(2) k True b by (simp add: flushAfterMetadata_def Let_def)
    have d: "distinct (timers s @ awaitingMetadata s @ awaitingSend s)"
      using assms(1) by (simp add: notifierInv_def flushes_def)
    have d': "distinct (flushes s')"
      using d k unfolding s' flushes_def by auto
    have e: "set (flushes s') = set (flushes s)"
      using d k unfolding s' flushes_def by auto
    show ?thesis
      using assms(1) d' e unfolding notifierInv_def
      by (simp add: s' scheduledIn_def fresh_def)
  next
    case False
    then have "s' = clearBatch k ?s1"
      using assms(2) k
      by (cases a) (auto simp add: flushAfterMetadata_def Let_def split: option.splits)
    then show ?thesis
      using cleared by simp
  qed
qed

lemma inv_flushAfterSend:
  assumes "notifierInv s" "flushAfterSend k r s = Some s'"
  shows "notifierInv s'"
proof -
  have k: "k \<in> set (awaitingSend s)"
    and s': "s' = clearBatch k (s\<lparr>awaitingSend := remove1 k (awaitingSend s)\<rparr>)"
    using assms(2) by (auto simp add: flushAfterSend_def split: if_splits)
  have fl: "flushes s = (timers s @ awaitingMetadata s) @ awaitingSend s @ []"
    by (simp add: flushes_def)
  show ?thesis
    unfolding s'
    by (rule inv_clear [OF assms(1) k fl]) (simp_all add: flushes_def clearBatch_def)
qed

lemma inv_step:
  assumes "notifierInv s" "notifierStep e s = Some s'"
  shows "notifierInv s'"
proof (cases e)
  case (Accumulate k ps)
  then show ?thesis
    using assms inv_scheduleWelcome [of s k ps] by simp
next
  case (TimerFires k)
  then show ?thesis
    using assms inv_flushStart [of s k s'] by simp
next
  case (MetadataSettles k a)
  then show ?thesis
    using assms inv_flushAfterMetadata [of s k a s'] by simp
next
  case (SendSettles k r)
  then show ?thesis
    using assms inv_flushAfterSend [of s k r s'] by simp
qed

lemma inv_run: "notifierInv s \<Longrightarrow> notifierRun evs s = Some s' \<Longrightarrow> notifierInv s'"
proof (induction evs arbitrary: s)
  case Nil
  then show ?case by simp
next
  case (Cons e evs)
  from Cons.prems(2) obtain s1 where s1: "notifierStep e s = Some s1"
    and r: "notifierRun evs s1 = Some s'"
    by (auto split: option.splits)
  have "notifierInv s1"
    using Cons.prems(1) s1 by (rule inv_step)
  then show ?case
    using r by (rule Cons.IH)
qed

lemma filter_absent: "k \<notin> set xs \<Longrightarrow> filter (\<lambda>x. x = k) xs = []"
  by (induction xs) auto

lemma distinct_at_most_once: "distinct xs \<Longrightarrow> length (filter (\<lambda>x. x = k) xs) \<le> 1"
  by (induction xs) (auto simp add: filter_absent)

subsection \<open>Accumulating and flushing\<close>

lemma fresh_unscheduled: "fresh s k \<Longrightarrow> \<not> scheduledIn s k"
  by (auto simp add: fresh_def scheduledIn_def emptyBatch_def)

lemma scheduleWelcome_fresh:
  "fresh s k \<Longrightarrow>
   scheduleWelcome k ps s =
     s\<lparr>groupParticipants := (groupParticipants s)(k \<mapsto> \<lparr>items = ps, scheduled = True\<rparr>),
       timers := timers s @ [k]\<rparr>"
  by (auto simp add: scheduleWelcome_def Let_def fresh_def emptyBatch_def)

lemma scheduleWelcome_scheduled:
  "groupParticipants s k = Some \<lparr>items = xs, scheduled = True\<rparr> \<Longrightarrow>
   scheduleWelcome k ps s =
     s\<lparr>groupParticipants := (groupParticipants s)(k \<mapsto> \<lparr>items = xs @ ps, scheduled = True\<rparr>)\<rparr>"
  by (simp add: scheduleWelcome_def Let_def)

lemma fold_scheduled:
  "groupParticipants s k = Some \<lparr>items = xs, scheduled = True\<rparr> \<Longrightarrow>
   fold (scheduleWelcome k) pss s =
     s\<lparr>groupParticipants :=
         (groupParticipants s)(k \<mapsto> \<lparr>items = xs @ concat pss, scheduled = True\<rparr>)\<rparr>"
proof (induction pss arbitrary: s xs)
  case Nil
  then show ?case by (simp add: fun_upd_idem)
next
  case (Cons ps pss)
  let ?s1 = "s\<lparr>groupParticipants :=
      (groupParticipants s)(k \<mapsto> \<lparr>items = xs @ ps, scheduled = True\<rparr>)\<rparr>"
  have a: "scheduleWelcome k ps s = ?s1"
    using Cons.prems by (rule scheduleWelcome_scheduled)
  have b: "groupParticipants ?s1 k = Some \<lparr>items = xs @ ps, scheduled = True\<rparr>"
    by simp
  have "fold (scheduleWelcome k) (ps # pss) s = fold (scheduleWelcome k) pss ?s1"
    by (simp add: a)
  also have "\<dots> = ?s1\<lparr>groupParticipants :=
      (groupParticipants ?s1)(k \<mapsto> \<lparr>items = (xs @ ps) @ concat pss, scheduled = True\<rparr>)\<rparr>"
    by (rule Cons.IH [OF b])
  also have "\<dots> = s\<lparr>groupParticipants :=
      (groupParticipants s)(k \<mapsto> \<lparr>items = xs @ concat (ps # pss), scheduled = True\<rparr>)\<rparr>"
    by simp
  finally show ?case .
qed

lemma fold_fresh:
  assumes "fresh s k" "pss \<noteq> []"
  shows "fold (scheduleWelcome k) pss s =
     s\<lparr>groupParticipants :=
         (groupParticipants s)(k \<mapsto> \<lparr>items = concat pss, scheduled = True\<rparr>),
       timers := timers s @ [k]\<rparr>"
proof -
  obtain ps rest where p: "pss = ps # rest"
    using assms(2) by (cases pss) auto
  let ?s1 = "s\<lparr>groupParticipants := (groupParticipants s)(k \<mapsto> \<lparr>items = ps, scheduled = True\<rparr>),
       timers := timers s @ [k]\<rparr>"
  have a: "scheduleWelcome k ps s = ?s1"
    using assms(1) by (rule scheduleWelcome_fresh)
  have b: "groupParticipants ?s1 k = Some \<lparr>items = ps, scheduled = True\<rparr>"
    by simp
  have "fold (scheduleWelcome k) (ps # rest) s = fold (scheduleWelcome k) rest ?s1"
    by (simp add: a)
  also have "\<dots> = ?s1\<lparr>groupParticipants :=
      (groupParticipants ?s1)(k \<mapsto> \<lparr>items = ps @ concat rest, scheduled = True\<rparr>)\<rparr>"
    by (rule fold_scheduled [OF b])
  also have "\<dots> = s\<lparr>groupParticipants :=
         (groupParticipants s)(k \<mapsto> \<lparr>items = concat (ps # rest), scheduled = True\<rparr>),
       timers := timers s @ [k]\<rparr>"
    by simp
  finally show ?thesis
    unfolding p .
qed

lemma flush_admin:
  assumes "groupParticipants s k = Some b" "k \<notin> set (timers s)"
  shows "map_option sent
     (Option.bind (flushStart k (s\<lparr>timers := timers s @ [k]\<rparr>)) (flushAfterMetadata k IsAdmin))
     = Some (sent s @ [(k, items b)])"
  using assms by (simp add: flushStart_def flushAfterMetadata_def Let_def remove1_append)

lemma flush_skips:
  assumes "k \<in> set (awaitingMetadata s)" "answer \<noteq> IsAdmin"
  shows "flushAfterMetadata k answer s =
     Some (clearBatch k (s\<lparr>awaitingMetadata := remove1 k (awaitingMetadata s)\<rparr>))"
  using assms by (cases answer) (simp_all add: flushAfterMetadata_def Let_def)

lemma clearBatch_fields:
  "groupParticipants (clearBatch k s) k = Some emptyBatch"
  "fresh (clearBatch k s) k"
  "sent (clearBatch k s) = sent s"
  by (simp_all add: clearBatch_def fresh_def)

text \<open>
  Claim C6. In every state that the notifier reaches, at most one flush timer is armed
  per group (and at most one flush is armed or under way). Any number of bursts
  accumulated for a group with no batch in progress arm exactly one timer, and when that
  timer fires and the bot is an admin, the message handed to the socket mentions all the
  accumulated participants in the order of arrival. When a flush ends without a send (an
  error or the bot not being admin) or after its send settled (with or without an
  error), the group's batch is the empty one without the flag, so that the next
  accumulation starts a new batch with a timer of its own.
\<close>

theorem C6_welcome_batch:
  "(notifierRun evs newNotifier = Some s \<longrightarrow>
      length (filter (\<lambda>g. g = k) (timers s)) \<le> 1
      \<and> length (filter (\<lambda>g. g = k) (flushes s)) \<le> 1)
   \<and> (fresh s k \<and> batches \<noteq> [] \<longrightarrow>
        timers (fold (scheduleWelcome k) batches s) = timers s @ [k]
        \<and> groupParticipants (fold (scheduleWelcome k) batches s) k
            = Some \<lparr>items = concat batches, scheduled = True\<rparr>)
   \<and> (notifierRun evs newNotifier = Some s \<and> fresh s k \<and> batches \<noteq> [] \<longrightarrow>
        length (filter (\<lambda>g. g = k) (timers (fold (scheduleWelcome k) batches s))) = 1
        \<and> map_option sent
             (Option.bind (flushStart k (fold (scheduleWelcome k) batches s))
                (flushAfterMetadata k IsAdmin))
            = Some (sent s @ [(k, concat batches)]))
   \<and> (k \<in> set (awaitingMetadata s) \<and> answer \<noteq> IsAdmin \<longrightarrow>
        (\<exists>s'. flushAfterMetadata k answer s = Some s'
              \<and> groupParticipants s' k = Some emptyBatch \<and> fresh s' k
              \<and> sent s' = sent s))
   \<and> (k \<in> set (awaitingSend s) \<longrightarrow>
        (\<exists>s'. flushAfterSend k thrown s = Some s'
              \<and> groupParticipants s' k = Some emptyBatch \<and> fresh s' k))"
proof -
  have once: "length (filter (\<lambda>g. g = k) (timers s)) \<le> 1
      \<and> length (filter (\<lambda>g. g = k) (flushes s)) \<le> 1"
    if r: "notifierRun evs newNotifier = Some s"
  proof -
    have "notifierInv s"
      using inv_new r by (rule inv_run)
    then have d: "distinct (flushes s)"
      by (simp add: notifierInv_def)
    then have t: "distinct (timers s)"
      by (simp add: flushes_def)
    from distinct_at_most_once [OF t, of k] distinct_at_most_once [OF d, of k]
    show ?thesis by blast
  qed
  have window: "timers (fold (scheduleWelcome k) batches s) = timers s @ [k]
        \<and> groupParticipants (fold (scheduleWelcome k) batches s) k
            = Some \<lparr>items = concat batches, scheduled = True\<rparr>"
    if "fresh s k" "batches \<noteq> []"
    by (simp add: fold_fresh [OF that])
  have flushed: "length (filter (\<lambda>g. g = k) (timers (fold (scheduleWelcome k) batches s))) = 1
        \<and> map_option sent
             (Option.bind (flushStart k (fold (scheduleWelcome k) batches s))
                (flushAfterMetadata k IsAdmin))
            = Some (sent s @ [(k, concat batches)])"
    if r: "notifierRun evs newNotifier = Some s" and f: "fresh s k" and b: "batches \<noteq> []"
  proof -
    have "notifierInv s"
      using inv_new r by (rule inv_run)
    then have "k \<notin> set (flushes s)"
      using fresh_unscheduled [OF f] by (simp add: notifierInv_def)
    then have n: "k \<notin> set (timers s)"
      by (simp add: flushes_def)
    let ?s1 = "s\<lparr>groupParticipants :=
        (groupParticipants s)(k \<mapsto> \<lparr>items = concat batches, scheduled = True\<rparr>)\<rparr>"
    have e: "fold (scheduleWelcome k) batches s = ?s1\<lparr>timers := timers ?s1 @ [k]\<rparr>"
      by (simp add: fold_fresh [OF f b])
    have g: "groupParticipants ?s1 k = Some \<lparr>items = concat batches, scheduled = True\<rparr>"
      and t: "k \<notin> set (timers ?s1)"
      using n by simp_all
    have c: "length (filter (\<lambda>g. g = k) (timers (fold (scheduleWelcome k) batches s))) = 1"
      using n by (simp add: e filter_absent)
    have m: "map_option sent
        (Option.bind (flushStart k (fold (scheduleWelcome k) batches s))
           (flushAfterMetadata k IsAdmin))
        = Some (sent s @ [(k, concat batches)])"
      unfolding e using flush_admin [OF g t] by simp
    from c m show ?thesis by blast
  qed
  have skipped: "\<exists>s'. flushAfterMetadata k answer s = Some s'
      \<and> groupParticipants s' k = Some emptyBatch \<and> fresh s' k \<and> sent s' = sent s"
    if "k \<in> set (awaitingMetadata s)" "answer \<noteq> IsAdmin"
    by (simp add: flush_skips [OF that] clearBatch_fields)
  have settled: "\<exists>s'. flushAfterSend k thrown s = Some s'
      \<and> groupParticipants s' k = Some emptyBatch \<and> fresh s' k"
    if "k \<in> set (awaitingSend s)"
    using that by (simp add: flushAfterSend_def clearBatch_fields)
  from once window flushed skipped settled show ?thesis by blast
qed

theorem C6_welcome_batch_witness:
  "notifierRun [] newNotifier = Some newNotifier
   \<and> fresh newNotifier ''120363@g.us''
   \<and> bursts \<noteq> []
   \<and> timers joined = [''120363@g.us'']
   \<and> length (filter (\<lambda>g. g = ''120363@g.us'') (timers joined)) = 1
   \<and> map_option sent
        (Option.bind (flushStart ''120363@g.us'' joined)
           (flushAfterMetadata ''120363@g.us'' IsAdmin))
       = Some [(''120363@g.us'',
                [''alice@s.whatsapp.net'', ''bob@s.whatsapp.net'', ''carol@s.whatsapp.net'',
                 ''dave@s.whatsapp.net''])]
   \<and> ''120363@g.us'' \<in> set (awaitingMetadata flushing)
   \<and> NotAdmin \<noteq> IsAdmin
   \<and> map_option (\<lambda>s. groupParticipants s ''120363@g.us'')
        (flushAfterMetadata ''120363@g.us'' NotAdmin flushing) = Some (Some emptyBatch)
   \<and> ''120363@g.us'' \<in> set (awaitingSend sending)
   \<and> map_option (\<lambda>s. groupParticipants s ''120363@g.us'')
        (flushAfterSend ''120363@g.us'' (Some ''not-authorized'') sending)
       = Some (Some emptyBatch)
   \<and> (\<exists>s. notifierRun
             [Accumulate ''120363@g.us'' [''alice@s.whatsapp.net''],
              Accumulate ''120363@g.us'' [''bob@s.whatsapp.net''],
              TimerFires ''120363@g.us'',
              MetadataSettles ''120363@g.us'' IsAdmin,
              SendSettles ''120363@g.us'' None,
              Accumulate ''120363@g.us'' [''erin@s.whatsapp.net'']] newNotifier = Some s
          \<and> length (filter (\<lambda>g. g = ''120363@g.us'') (timers s)) \<le> 1
          \<and> timers s = [''120363@g.us'']
          \<and> groupParticipants s ''120363@g.us''
              = Some \<lparr>items = [''erin@s.whatsapp.net''], scheduled = True\<rparr>
          \<and> sent s
              = [(''120363@g.us'', [''alice@s.whatsapp.net'', ''bob@s.whatsapp.net''])])"
proof -
  let ?g = "''120363@g.us''"
  have r: "notifierRun [] newNotifier = Some newNotifier"
    by simp
  have f: "fresh newNotifier ?g"
    by (simp add: fresh_def newNotifier_def)
  have b: "bursts \<noteq> []"
    by (simp add: bursts_def)
  have m: "?g \<in> set (awaitingMetadata flushing)"
    by (simp add: flushing_def)
  have a: "NotAdmin \<noteq> IsAdmin"
    by simp
  have s: "?g \<in> set (awaitingSend sending)"
    by (simp add: sending_def)
  note fromNew = C6_welcome_batch [of "[]" newNotifier ?g bursts NotAdmin "Some ''not-authorized''"]
  note fromFlushing = C6_welcome_batch [of "[]" flushing ?g bursts NotAdmin
      "Some ''not-authorized''"]
  note fromSending = C6_welcome_batch [of "[]" sending ?g bursts NotAdmin
      "Some ''not-authorized''"]
  have t: "timers (fold (scheduleWelcome ?g) bursts newNotifier) = timers newNotifier @ [?g]"
    and c: "length (filter (\<lambda>g. g = ?g) (timers (fold (scheduleWelcome ?g) bursts newNotifier)))
      = 1"
    and x: "map_option sent
        (Option.bind (flushStart ?g (fold (scheduleWelcome ?g) bursts newNotifier))
           (flushAfterMetadata ?g IsAdmin))
        = Some (sent newNotifier @ [(?g, concat bursts)])"
    using fromNew r f b by blast+
  have t': "timers joined = [?g]"
    using t by (simp add: joined_def newNotifier_def)
  have c': "length (filter (\<lambda>g. g = ?g) (timers joined)) = 1"
    using c by (simp add: joined_def)
  have x': "map_option sent
        (Option.bind (flushStart ?g joined) (flushAfterMetadata ?g IsAdmin))
       = Some [(?g, [''alice@s.whatsapp.net'', ''bob@s.whatsapp.net'',
                     ''carol@s.whatsapp.net'', ''dave@s.whatsapp.net''])]"
    using x by (simp add: joined_def newNotifier_def bursts_def)
  have k: "\<exists>s'. flushAfterMetadata ?g NotAdmin flushing = Some s'
      \<and> groupParticipants s' ?g = Some emptyBatch \<and> fresh s' ?g \<and> sent s' = sent flushing"
    using fromFlushing m a by blast
  have k': "map_option (\<lambda>s. groupParticipants s ?g) (flushAfterMetadata ?g NotAdmin flushing)
      = Some (Some emptyBatch)"
    using k by auto
  have e: "\<exists>s'. flushAfterSend ?g (Some ''not-authorized'') sending = Some s'
      \<and> groupParticipants s' ?g = Some emptyBatch \<and> fresh s' ?g"
    using fromSending s by blast
  have e': "map_option (\<lambda>s. groupParticipants s ?g)
      (flushAfterSend ?g (Some ''not-authorized'') sending) = Some (Some emptyBatch)"
    using e by auto
  let ?evs = "[Accumulate ?g [''alice@s.whatsapp.net''],
      Accumulate ?g [''bob@s.whatsapp.net''], TimerFires ?g, MetadataSettles ?g IsAdmin,
      SendSettles ?g None, Accumulate ?g [''erin@s.whatsapp.net'']]"
  obtain z where z: "notifierRun ?evs newNotifier = Some z"
    and zt: "timers z = [?g]"
    and zg: "groupParticipants z ?g = Some \<lparr>items = [''erin@s.whatsapp.net''], scheduled = True\<rparr>"
    and zs: "sent z = [(?g, [''alice@s.whatsapp.net'', ''bob@s.whatsapp.net''])]"
    by (simp add: newNotifier_def scheduleWelcome_def flushStart_def flushAfterMetadata_def
        flushAfterSend_def clearBatch_def emptyBatch_def Let_def)
  have zc: "length (filter (\<lambda>g. g = ?g) (timers z)) \<le> 1"
    using C6_welcome_batch [of ?evs z ?g bursts NotAdmin "Some ''not-authorized''"] z
    by blast
  have second: "\<exists>s. notifierRun ?evs newNotifier = Some s
      \<and> length (filter (\<lambda>g. g = ?g) (timers s)) \<le> 1
      \<and> timers s = [?g]
      \<and> groupParticipants s ?g = Some \<lparr>items = [''erin@s.whatsapp.net''], scheduled = True\<rparr>
      \<and> sent s = [(?g, [''alice@s.whatsapp.net'', ''bob@s.whatsapp.net''])]"
    using z zc zt zg zs by blast
  from r f b t' c' x' m a k' s e' second show ?thesis by blast
qed

end
